theory Spec2Isabelle
  imports Complex_Main "HOL-Library.AList" "HOL-Library.Sublist"
begin

section \<open>The LLM communication tracker (src/shared/llm_communication_tracker.py)\<close>

text \<open>
  Conventions of the embedding.
  \<^item> A Python \<open>dict\<close> is an association list in insertion order: \<open>d[k] = v\<close> is
    \<open>AList.update k v d\<close> (an existing key keeps its place, a new one goes last),
    \<open>del d[k]\<close> is \<open>AList.delete k d\<close>, \<open>k in d\<close> and \<open>d.get(k)\<close> read \<open>map_of d k\<close>,
    \<open>d.values()\<close> is \<open>map snd d\<close> and \<open>len(d)\<close> is \<open>length d\<close>.
  \<^item> \<open>datetime.now()\<close>, \<open>time.time()\<close> and \<open>uuid.uuid4()\<close> are inputs of the environment: every
    operation takes the identifier it generates and the current time as its first arguments.
    An operation returns the tracker it leaves; the identifier the Python returns is that input.
  \<^item> A Python \<open>float\<close> is a \<open>real\<close>: rounding is not modelled.
  \<^item> Text is a \<open>string\<close> holding the UTF-8 encoding of the Python \<open>str\<close>, one character per byte;
    for a needle of ASCII characters, \<open>needle in text\<close> is the same on the bytes as on the code points.
  \<^item> The lock serialises the operations; the model is the sequential behaviour under the lock.
\<close>

subsection \<open>Enumerations and records\<close>

datatype LLMProvider = OPENAI | AZURE_OPENAI | ANTHROPIC | HUGGINGFACE

datatype AgentFramework = AUTOGEN | CREWAI | CUSTOM

type_synonym datetime = nat

text \<open>A function-call descriptor is a dictionary of text fields; a tool call is a dictionary whose
  \<open>"function"\<close> entry is such a descriptor.\<close>

type_synonym pydict = "(string \<times> string) list"

type_synonym tool_call = "(string \<times> pydict) list"

record LLMMessage =
  msg_id :: string
  timestamp :: datetime
  role :: string
  content :: string
  tokens :: "int option"
  function_call :: "pydict option"
  tool_calls :: "tool_call list option"

record LLMCommunication =
  comm_id :: string
  agent_id :: string
  agent_name :: string
  agent_specialty :: string
  framework :: AgentFramework
  provider :: LLMProvider
  model :: string
  session_start :: datetime
  session_end :: "datetime option"
  patient_id :: "string option"
  patient_name :: "string option"
  scenario_type :: string
  messages :: "LLMMessage list"
  system_prompt :: "string option"
  total_input_tokens :: int
  total_output_tokens :: int
  total_tokens :: int
  cost_estimate :: real
  response_time_ms :: int
  final_response :: "string option"
  confidence_score :: "real option"
  function_calls_made :: "string list"
  tools_used :: "string list"
  error_message :: "string option"
  error_type :: "string option"
  error_code :: "int option"
  retry_count :: int

text \<open>The tracker object. \<open>executor\<close> holds the webhook jobs handed to the thread pool, each with
  the record it was submitted with; running the jobs is outside the model.\<close>

record LLMCommunicationTracker =
  communications :: "(string \<times> LLMCommunication) list"
  active_sessions :: "(string \<times> string) list"
  webhook_url :: "string option"
  executor :: "LLMCommunication list"

text \<open>One entry of the price table, \<open>{"input": ..., "output": ...}\<close>, per 1000 tokens.\<close>

record model_pricing =
  input_price :: real
  output_price :: real

datatype py_error = ZeroDivisionError | ValueError string | TypeError string

subsection \<open>Python helpers\<close>

text \<open>Truthiness of an optional text (\<open>None\<close> and \<open>""\<close> are false).\<close>

definition truthy_str :: "string option \<Rightarrow> bool" where
  "truthy_str s = (case s of None \<Rightarrow> False | Some v \<Rightarrow> v \<noteq> [])"

text \<open>\<open>d.get(k, default)\<close>.\<close>

definition dict_get :: "('k \<times> 'v) list \<Rightarrow> 'k \<Rightarrow> 'v \<Rightarrow> 'v" where
  "dict_get d k dflt = (case map_of d k of None \<Rightarrow> dflt | Some v \<Rightarrow> v)"

text \<open>True division \<open>a / b\<close> of a number by a length.\<close>

definition py_truediv :: "real \<Rightarrow> nat \<Rightarrow> py_error + real" where
  "py_truediv a b = (if b = 0 then Inl ZeroDivisionError else Inr (a / real b))"

text \<open>\<open>int(x)\<close> of a float: truncation towards zero.\<close>

definition py_int :: "real \<Rightarrow> int" where
  "py_int x = (if 0 \<le> x then \<lfloor>x\<rfloor> else \<lceil>x\<rceil>)"

subsection \<open>Construction\<close>

definition pricing :: "(LLMProvider \<times> (string \<times> model_pricing) list) list" where
  "pricing =
     [(OPENAI,
       [(''gpt-4'', \<lparr>input_price = 0.03, output_price = 0.06\<rparr>),
        (''gpt-4-turbo'', \<lparr>input_price = 0.01, output_price = 0.03\<rparr>),
        (''gpt-3.5-turbo'', \<lparr>input_price = 0.0015, output_price = 0.002\<rparr>)])]"

definition init :: "string option \<Rightarrow> LLMCommunicationTracker" where
  "init url = \<lparr>communications = [], active_sessions = [], webhook_url = url, executor = []\<rparr>"

subsection \<open>start_communication\<close>

definition start_communication ::
  "string \<Rightarrow> datetime \<Rightarrow> LLMCommunicationTracker \<Rightarrow> string \<Rightarrow> string \<Rightarrow> string \<Rightarrow>
   AgentFramework \<Rightarrow> LLMProvider \<Rightarrow> string \<Rightarrow> string option \<Rightarrow> string option \<Rightarrow> string \<Rightarrow>
   string option \<Rightarrow> LLMCommunicationTracker" where
  "start_communication cid now self aid aname aspecialty fw prov mdl pid pname scenario sysprompt =
     (let communication =
        \<lparr>comm_id = cid, agent_id = aid, agent_name = aname, agent_specialty = aspecialty,
         framework = fw, provider = prov, model = mdl,
         session_start = now, session_end = None,
         patient_id = pid, patient_name = pname, scenario_type = scenario,
         messages = [], system_prompt = sysprompt,
         total_input_tokens = 0, total_output_tokens = 0, total_tokens = 0,
         cost_estimate = 0, response_time_ms = 0,
         final_response = None, confidence_score = None,
         function_calls_made = [], tools_used = [],
         error_message = None, error_type = None, error_code = None, retry_count = 0\<rparr>
      in self\<lparr>communications := AList.update cid communication (communications self),
              active_sessions := AList.update aid cid (active_sessions self)\<rparr>)"

subsection \<open>add_message\<close>

text \<open>Lines 188-197: the token counters. \<open>if tokens:\<close> is false for \<open>None\<close> and for \<open>0\<close>.\<close>

definition update_token_counts :: "LLMMessage \<Rightarrow> LLMCommunication \<Rightarrow> LLMCommunication" where
  "update_token_counts m c =
     (case tokens m of
        None \<Rightarrow> c
      | Some n \<Rightarrow>
          if n = 0 then c
          else
            (let c' =
               (if role m = ''user'' \<or> role m = ''system''
                then c\<lparr>total_input_tokens := total_input_tokens c + n\<rparr>
                else if role m = ''assistant''
                then c\<lparr>total_output_tokens := total_output_tokens c + n\<rparr>
                else c)
             in c'\<lparr>total_tokens := total_input_tokens c' + total_output_tokens c'\<rparr>))"

text \<open>Lines 199-206: the names of the function call and of the tool calls.\<close>

definition tool_name :: "tool_call \<Rightarrow> string" where
  "tool_name tc = dict_get (dict_get tc ''function'' []) ''name'' ''unknown''"

definition track_calls :: "LLMMessage \<Rightarrow> LLMCommunication \<Rightarrow> LLMCommunication" where
  "track_calls m c =
     (let c' =
        (case function_call m of
           None \<Rightarrow> c
         | Some fc \<Rightarrow>
             if fc = [] then c
             else c\<lparr>function_calls_made := function_calls_made c @ [dict_get fc ''name'' ''unknown'']\<rparr>)
      in case tool_calls m of
           None \<Rightarrow> c'
         | Some tcs \<Rightarrow>
             if tcs = [] then c'
             else c'\<lparr>tools_used := tools_used c' @ map tool_name tcs\<rparr>)"

text \<open>Lines 185-206: what \<open>add_message\<close> does to the record it finds.\<close>

definition record_message :: "LLMMessage \<Rightarrow> LLMCommunication \<Rightarrow> LLMCommunication" where
  "record_message m c = track_calls m (update_token_counts m (c\<lparr>messages := messages c @ [m]\<rparr>))"

definition add_message ::
  "string \<Rightarrow> datetime \<Rightarrow> LLMCommunicationTracker \<Rightarrow> string \<Rightarrow> string \<Rightarrow> string \<Rightarrow> int option \<Rightarrow>
   pydict option \<Rightarrow> tool_call list option \<Rightarrow> LLMCommunicationTracker" where
  "add_message message_id now self cid role' content' tokens' function_call' tool_calls' =
     (let message =
        \<lparr>msg_id = message_id, timestamp = now, role = role', content = content',
         tokens = tokens', function_call = function_call', tool_calls = tool_calls'\<rparr>
      in case map_of (communications self) cid of
           None \<Rightarrow> self
         | Some c \<Rightarrow>
             self\<lparr>communications := AList.update cid (record_message message c) (communications self)\<rparr>)"

subsection \<open>The cost model\<close>

definition calculate_cost :: "LLMCommunication \<Rightarrow> real" where
  "calculate_cost comm =
     (case map_of pricing (provider comm) of
        None \<Rightarrow> 0
      | Some models \<Rightarrow>
          (case map_of models (model comm) of
             None \<Rightarrow> 0
           | Some mp \<Rightarrow>
               (let input_cost = (real_of_int (total_input_tokens comm) / 1000) * input_price mp;
                    output_cost = (real_of_int (total_output_tokens comm) / 1000) * output_price mp
                in input_cost + output_cost)))"

subsection \<open>complete_communication\<close>

definition complete_communication ::
  "datetime \<Rightarrow> LLMCommunicationTracker \<Rightarrow> string \<Rightarrow> string \<Rightarrow> int \<Rightarrow> real option \<Rightarrow>
   string option \<Rightarrow> string option \<Rightarrow> int option \<Rightarrow> int \<Rightarrow> LLMCommunicationTracker" where
  "complete_communication now self cid final_response' response_time_ms' confidence_score'
       error_message' error_type' error_code' retry_count' =
     (case map_of (communications self) cid of
        None \<Rightarrow> self
      | Some comm \<Rightarrow>
          if messages comm = []
          then self\<lparr>communications := AList.delete cid (communications self)\<rparr>
          else
            (let comm1 = comm\<lparr>session_end := Some now,
                              final_response := Some final_response',
                              response_time_ms := response_time_ms',
                              confidence_score := confidence_score',
                              error_message := error_message',
                              error_type := error_type',
                              error_code := error_code',
                              retry_count := retry_count'\<rparr>;
                 comm2 = comm1\<lparr>cost_estimate := calculate_cost comm1\<rparr>;
                 self1 = self\<lparr>communications := AList.update cid comm2 (communications self)\<rparr>;
                 self2 =
                   (if map_of (active_sessions self1) (agent_id comm2) \<noteq> None
                    then self1\<lparr>active_sessions :=
                                 AList.delete (agent_id comm2) (active_sessions self1)\<rparr>
                    else self1)
             in if truthy_str (webhook_url self2)
                then self2\<lparr>executor := executor self2 @ [comm2]\<rparr>
                else self2))"

definition get_communication :: "LLMCommunicationTracker \<Rightarrow> string \<Rightarrow> LLMCommunication option" where
  "get_communication self cid = map_of (communications self) cid"

subsection \<open>Statistics and export\<close>

record framework_stat =
  fs_count :: nat
  fs_tokens :: int
  fs_cost :: real

record latest_error =
  le_message :: "string option"
  le_code :: "int option"
  le_timestamp :: datetime
  le_agent :: string

record error_stat =
  es_count :: nat
  es_latest_error :: "latest_error option"

text \<open>The two shapes \<open>get_communication_stats\<close> returns: the dictionary with the keys
  \<open>total\<close> and \<open>completed\<close> only, and the full one.\<close>

datatype stats =
  Minimal (st_total: nat) (st_completed: nat)
| Full (st_total: nat) (st_completed: nat) (st_active: nat) (st_errors: nat)
    (st_total_tokens: int) (st_total_cost: real) (st_average_response_time_ms: int)
    (st_by_framework: "(string \<times> framework_stat) list")
    (st_error_breakdown: "(string \<times> error_stat) list")

definition framework_value :: "AgentFramework \<Rightarrow> string" where
  "framework_value fw = (case fw of AUTOGEN \<Rightarrow> ''autogen'' | CREWAI \<Rightarrow> ''crewai'' | CUSTOM \<Rightarrow> ''custom'')"

text \<open>Lines 291-297: one entry of \<open>framework_stats\<close>.\<close>

definition framework_entry :: "LLMCommunication list \<Rightarrow> AgentFramework \<Rightarrow> string \<times> framework_stat" where
  "framework_entry completed_comms fw =
     (let framework_comms = filter (\<lambda>c. framework c = fw) completed_comms
      in (framework_value fw,
          \<lparr>fs_count = length framework_comms,
           fs_tokens = sum_list (map total_tokens framework_comms),
           fs_cost = sum_list (map cost_estimate framework_comms)\<rparr>))"

text \<open>Lines 302-312: one round of the loop over \<open>error_comms\<close>. The snapshot keeps
  \<open>session_start\<close> as a time; its rendering by \<open>isoformat\<close> is not modelled.\<close>

definition error_stats_step ::
  "(string \<times> error_stat) list \<Rightarrow> LLMCommunication \<Rightarrow> (string \<times> error_stat) list" where
  "error_stats_step error_stats error_comm =
     (let etype = (case error_type error_comm of
                     None \<Rightarrow> ''unknown''
                   | Some ty \<Rightarrow> if ty = [] then ''unknown'' else ty);
          entry = (case map_of error_stats etype of
                     None \<Rightarrow> \<lparr>es_count = 0, es_latest_error = None\<rparr>
                   | Some e \<Rightarrow> e)
      in AList.update etype
           \<lparr>es_count = es_count entry + 1,
            es_latest_error =
              Some \<lparr>le_message = error_message error_comm, le_code = error_code error_comm,
                    le_timestamp = session_start error_comm, le_agent = agent_name error_comm\<rparr>\<rparr>
           error_stats)"

definition get_communication_stats :: "LLMCommunicationTracker \<Rightarrow> py_error + stats" where
  "get_communication_stats self =
     (let comms = map snd (communications self);
          completed_comms = filter (\<lambda>c. session_end c \<noteq> None) comms
      in if completed_comms = [] then Inr (Minimal 0 0)
         else
           (case py_truediv (real_of_int (sum_list (map response_time_ms completed_comms)))
                   (length completed_comms) of
              Inl e \<Rightarrow> Inl e
            | Inr avg_response_time \<Rightarrow>
                (let error_comms = filter (\<lambda>c. truthy_str (error_message c)) completed_comms
                 in Inr (Full (length comms) (length completed_comms)
                           (length (active_sessions self)) (length error_comms)
                           (sum_list (map total_tokens completed_comms))
                           (sum_list (map cost_estimate completed_comms))
                           (py_int avg_response_time)
                           (map (framework_entry completed_comms) [AUTOGEN, CREWAI, CUSTOM])
                           (foldl error_stats_step [] error_comms)))))"

text \<open>Lines 330-342: the list \<open>export_data\<close>, one entry per stored record in the order of the
  store. An entry is what \<open>asdict\<close> gives, kept here as the record; the rendering of its times by
  \<open>isoformat\<close> is not modelled.\<close>

definition export_data :: "LLMCommunicationTracker \<Rightarrow> LLMCommunication list" where
  "export_data self = map snd (communications self)"

text \<open>Line 344, \<open>json.dumps(export_data, indent=2)\<close>. \<open>asdict\<close> leaves the \<open>Enum\<close> members of
  \<open>framework\<close> and \<open>provider\<close> in every entry, and \<open>json.dumps\<close>, called without \<open>default\<close>, raises
  \<open>TypeError\<close> at the first value it cannot encode: the \<open>framework\<close> of the first entry (the fields
  before it are texts). So only the empty list is rendered, as \<open>[]\<close>.\<close>

definition json_dumps :: "LLMCommunication list \<Rightarrow> py_error + string" where
  "json_dumps data =
     (case data of
        [] \<Rightarrow> Inr ''[]''
      | entry # entries \<Rightarrow> Inl (TypeError ''Object of type AgentFramework is not JSON serializable''))"

definition export_communications :: "LLMCommunicationTracker \<Rightarrow> string \<Rightarrow> py_error + string" where
  "export_communications self format' =
     (if format' = ''json'' then json_dumps (export_data self)
      else Inl (ValueError (''Unsupported export format: '' @ format')))"

subsection \<open>The error classifier\<close>

text \<open>Python's \<open>needle in haystack\<close> on text.\<close>

fun contains :: "string \<Rightarrow> string \<Rightarrow> bool" where
  "contains [] needle = (needle = [])"
| "contains (h # hs) needle = (prefix needle (h # hs) \<or> contains hs needle)"

text \<open>\<open>str.lower\<close> on one ASCII character.\<close>

definition lower_char :: "char \<Rightarrow> char" where
  "lower_char c =
     (case map_of (zip ''ABCDEFGHIJKLMNOPQRSTUVWXYZ'' ''abcdefghijklmnopqrstuvwxyz'') c of
        None \<Rightarrow> c
      | Some l \<Rightarrow> l)"

text \<open>\<open>str.lower\<close>, on the UTF-8 bytes. It maps \<open>A\<close>..\<open>Z\<close> to \<open>a\<close>..\<open>z\<close>, the Kelvin sign U+212A (bytes
  \<open>E2 84 AA\<close>) to \<open>k\<close>, and U+0130 (bytes \<open>C4 B0\<close>) to \<open>i\<close> followed by U+0307 (bytes \<open>CC 87\<close>);
  these two are the only code points beyond ASCII whose lower case holds an ASCII character.
  Every other code point beyond ASCII goes to code points beyond ASCII, all of whose bytes are
  \<open>80\<close> or above; their bytes are left as they are here, which no test for a needle of ASCII
  characters can tell apart.\<close>

fun lower :: "string \<Rightarrow> string" where
  "lower (a # b # c # cs) =
     (if [a, b, c] = [CHR 0xE2, CHR 0x84, CHR 0xAA] then CHR ''k'' # lower cs
      else if [a, b] = [CHR 0xC4, CHR 0xB0]
      then CHR ''i'' # CHR 0xCC # CHR 0x87 # lower (c # cs)
      else lower_char a # lower (b # c # cs))"
| "lower [a, b] =
     (if [a, b] = [CHR 0xC4, CHR 0xB0] then [CHR ''i'', CHR 0xCC, CHR 0x87]
      else lower_char a # lower [b])"
| "lower [a] = [lower_char a]"
| "lower [] = []"

text \<open>What the classifier reads of an exception: \<open>str(exception)\<close>, the attribute
  \<open>status_code\<close> and the attribute \<open>retry_count\<close> (\<open>None\<close> when the exception has none).\<close>

record py_exception =
  exc_str :: string
  exc_status_code :: "int option"
  exc_retry_count :: "int option"

definition parse_openai_error :: "py_exception \<Rightarrow> string \<times> string \<times> int option" where
  "parse_openai_error exception =
     (let error_message' = exc_str exception;
          error_code' = exc_status_code exception
      in if contains (lower error_message') ''insufficient_quota'' \<or> contains (lower error_message') ''quota''
         then (error_message', ''quota_exceeded'', Some 429)
         else if contains (lower error_message') ''rate limit'' \<or> contains error_message' ''429''
         then (error_message', ''rate_limit'', Some 429)
         else if contains (lower error_message') ''invalid api key''
                 \<or> contains (lower error_message') ''unauthorized'' \<or> contains error_message' ''401''
         then (error_message', ''auth_failed'', Some 401)
         else if contains (lower error_message') ''api key specified is not a valid openai format''
         then (error_message', ''invalid_key_format'', Some 400)
         else if contains error_message' ''400''
         then (error_message', ''bad_request'', Some 400)
         else if contains error_message' ''500''
         then (error_message', ''server_error'', Some 500)
         else (error_message', ''unknown_error'', error_code'))"

subsection \<open>The framework adapters\<close>

text \<open>What one intercepted call takes from the environment: the identifier and time of the
  session it starts, the identifier and time of its k-th \<open>add_message\<close>, the time of completion
  and the elapsed time it measures.\<close>

record call_env =
  env_comm_id :: string
  env_start :: datetime
  env_msg :: "nat \<Rightarrow> string \<times> datetime"
  env_end :: datetime
  env_response_time_ms :: int

text \<open>A chat message handed to AutoGen's \<open>generate_reply\<close>: \<open>msg.get("role")\<close> and
  \<open>str(msg.get("content"))\<close>.\<close>

record chat_message =
  cm_role :: string
  cm_content :: string

text \<open>A reply of AutoGen's \<open>generate_reply\<close>: a text, a dictionary (with what
  \<open>reply.get("content")\<close> gives, as text), or anything else.\<close>

datatype reply = ReplyStr string | ReplyDict "string option" | ReplyOther

text \<open>Lines 490-495: the loop logging the messages sent; \<open>k\<close> counts the \<open>add_message\<close> calls.\<close>

fun log_messages ::
  "call_env \<Rightarrow> nat \<Rightarrow> LLMCommunicationTracker \<Rightarrow> chat_message list \<Rightarrow> LLMCommunicationTracker" where
  "log_messages env k self [] = self"
| "log_messages env k self (msg # msgs) =
     log_messages env (Suc k)
       (add_message (fst (env_msg env k)) (snd (env_msg env k)) self (env_comm_id env)
          (cm_role msg) (cm_content msg) None None None)
       msgs"

text \<open>\<open>AutoGenLLMWrapper.wrap_agent\<close>: the replacement \<open>tracked_generate_reply\<close>. \<open>config_list\<close> is
  \<open>agent.llm_config["config_list"]\<close> (\<open>None\<close> when there is none), \<open>outcome\<close> is what the original
  \<open>generate_reply\<close> does: it raises (\<open>Inl\<close>) or returns (\<open>Inr\<close>). The result pairs the tracker with
  what the wrapper does: it raises or returns.\<close>

definition tracked_generate_reply ::
  "call_env \<Rightarrow> LLMCommunicationTracker \<Rightarrow> pydict list option \<Rightarrow> string option \<Rightarrow>
   string \<Rightarrow> string \<Rightarrow> string \<Rightarrow> chat_message list \<Rightarrow> py_exception + reply \<Rightarrow>
   LLMCommunicationTracker \<times> (py_exception + reply)" where
  "tracked_generate_reply env self config_list system_message aid aname specialty msgs outcome =
     (let mdl = (case config_list of
                   None \<Rightarrow> ''unknown''
                 | Some [] \<Rightarrow> ''unknown''
                 | Some (cfg # _) \<Rightarrow> dict_get cfg ''model'' ''unknown'');
          cid = env_comm_id env;
          self1 = start_communication cid (env_start env) self aid aname specialty AUTOGEN OPENAI mdl
                    None None ''assessment'' system_message;
          self2 = log_messages env 0 self1 msgs
      in case outcome of
           Inr reply \<Rightarrow>
             (let response_content =
                    (case reply of ReplyStr s \<Rightarrow> s | ReplyDict (Some c) \<Rightarrow> c | _ \<Rightarrow> []);
                  self3 = add_message (fst (env_msg env (length msgs))) (snd (env_msg env (length msgs)))
                            self2 cid ''assistant'' response_content None None None;
                  self4 = complete_communication (env_end env) self3 cid response_content
                            (env_response_time_ms env) None None None None 0
              in (self4, Inr reply))
         | Inl e \<Rightarrow>
             (case parse_openai_error e of
                (error_type', error_message', error_code') \<Rightarrow>
                  (let final_response_on_error = ''Error: '' @ error_message';
                       self3 = complete_communication (env_end env) self2 cid final_response_on_error
                                 (env_response_time_ms env) None
                                 (Some error_message') (Some error_type') error_code'
                                 (case exc_retry_count e of None \<Rightarrow> 0 | Some n \<Rightarrow> n)
                   in (self3, Inl e))))"

text \<open>\<open>len(text)\<close> counts code points: the bytes that are not continuation bytes (\<open>80\<close> to
  \<open>BF\<close>) of the encoding.\<close>

definition py_len :: "string \<Rightarrow> nat" where
  "py_len text' =
     length (filter (\<lambda>c. \<not> (128 \<le> (of_char c :: nat) \<and> (of_char c :: nat) < 192)) text')"

definition estimate_tokens :: "string \<Rightarrow> int" where
  "estimate_tokens text' = max 1 (int (py_len text') div 4)"

text \<open>\<open>CrewAILLMWrapper.wrap_agent_llm\<close>: the replacement \<open>tracked_call\<close>. \<open>model_name\<close> is the
  attribute of \<open>agent.llm\<close> (\<open>None\<close> when absent), \<open>outcome\<close> is what the original call does, its
  result already as text.\<close>

definition tracked_call ::
  "call_env \<Rightarrow> LLMCommunicationTracker \<Rightarrow> string option \<Rightarrow> string \<Rightarrow> string \<Rightarrow> string \<Rightarrow>
   string \<Rightarrow> py_exception + string \<Rightarrow> LLMCommunicationTracker \<times> (py_exception + string)" where
  "tracked_call env self model_name aid aname specialty prompt outcome =
     (let cid = env_comm_id env;
          self1 = start_communication cid (env_start env) self aid aname specialty CREWAI OPENAI
                    (case model_name of None \<Rightarrow> ''gpt-4'' | Some m \<Rightarrow> m)
                    None None ''assessment'' None;
          self2 = add_message (fst (env_msg env 0)) (snd (env_msg env 0)) self1 cid ''user'' prompt
                    (Some (estimate_tokens prompt)) None None
      in case outcome of
           Inr result \<Rightarrow>
             (let response_content = result;
                  self3 = add_message (fst (env_msg env 1)) (snd (env_msg env 1)) self2 cid
                            ''assistant'' response_content
                            (Some (estimate_tokens response_content)) None None;
                  self4 = complete_communication (env_end env) self3 cid response_content
                            (env_response_time_ms env) None None None None 0
              in (self4, Inr result))
         | Inl e \<Rightarrow>
             (case parse_openai_error e of
                (error_message', error_type', error_code') \<Rightarrow>
                  (complete_communication (env_end env) self2 cid [] (env_response_time_ms env) None
                     (Some error_message') (Some error_type') error_code' 0,
                   Inl e)))"

subsection \<open>Sequences of calls\<close>

text \<open>A call of one of the three mutating operations of the tracker, with its arguments in the
  order of the definitions above, and the run of a sequence of calls.\<close>

datatype tracker_call =
  Start string datetime string string string AgentFramework LLMProvider string
    "string option" "string option" string "string option"
| AddMessage string datetime string string string "int option" "pydict option"
    "tool_call list option"
| Complete datetime string string int "real option" "string option" "string option"
    "int option" int

fun step :: "LLMCommunicationTracker \<Rightarrow> tracker_call \<Rightarrow> LLMCommunicationTracker" where
  "step self (Start cid now aid aname aspecialty fw prov mdl pid pname scenario sysprompt) =
     start_communication cid now self aid aname aspecialty fw prov mdl pid pname scenario sysprompt"
| "step self (AddMessage mid now cid r ct tk fc tcs) = add_message mid now self cid r ct tk fc tcs"
| "step self (Complete now cid fr rt cs em et ec rc) =
     complete_communication now self cid fr rt cs em et ec rc"

definition run :: "LLMCommunicationTracker \<Rightarrow> tracker_call list \<Rightarrow> LLMCommunicationTracker" where
  "run self calls = foldl step self calls"

text \<open>A sequence of \<open>add_message\<close> calls on one record, each call given by the message it logs.\<close>

definition add_messages ::
  "LLMCommunicationTracker \<Rightarrow> string \<Rightarrow> LLMMessage list \<Rightarrow> LLMCommunicationTracker" where
  "add_messages self cid ms =
     foldl (\<lambda>t m. add_message (msg_id m) (timestamp m) t cid (role m) (content m) (tokens m)
                    (function_call m) (tool_calls m)) self ms"

subsection \<open>Notions used in the statements\<close>

text \<open>The token count a call supplies (\<open>None\<close> supplies nothing), and the sums of the counts
  supplied with the roles of the input bucket and of the output bucket.\<close>

definition token_count :: "LLMMessage \<Rightarrow> int" where
  "token_count m = (case tokens m of None \<Rightarrow> 0 | Some n \<Rightarrow> n)"

definition input_sum :: "LLMMessage list \<Rightarrow> int" where
  "input_sum ms =
     sum_list (map token_count (filter (\<lambda>m. role m = ''user'' \<or> role m = ''system'') ms))"

definition output_sum :: "LLMMessage list \<Rightarrow> int" where
  "output_sum ms = sum_list (map token_count (filter (\<lambda>m. role m = ''assistant'') ms))"

text \<open>The classifier as the specification words it: an ordered list of rules, each with its
  needles, its type and its code; a rule matches when one of its needles occurs in the text
  without regard to case; the first rule that matches decides.\<close>

definition classifier_rules :: "(string list \<times> string \<times> int) list" where
  "classifier_rules =
     [([''insufficient_quota'', ''quota''], ''quota_exceeded'', 429),
      ([''rate limit'', ''429''], ''rate_limit'', 429),
      ([''invalid api key'', ''unauthorized'', ''401''], ''auth_failed'', 401),
      ([''api key specified is not a valid openai format''], ''invalid_key_format'', 400),
      ([''400''], ''bad_request'', 400),
      ([''500''], ''server_error'', 500)]"

text \<open>Matching without regard to case, said without \<open>lower\<close>. A character of the text matches
  a character of the needle when it is that character or, for a needle character \<open>a\<close>..\<open>z\<close>
  (codes 97 to 122), the capital letter 32 below it; the Kelvin sign, which Unicode makes a
  capital of \<open>k\<close>, matches \<open>k\<close>. The needle occurs in the text when, from some position of the
  text on, its characters are matched one after the other.\<close>

definition ci_eq :: "char \<Rightarrow> char \<Rightarrow> bool" where
  "ci_eq a n =
     (a = n \<or>
      (97 \<le> (of_char n :: nat) \<and> (of_char n :: nat) \<le> 122 \<and> (of_char a :: nat) + 32 = of_char n))"

definition kelvin_sign :: string where
  "kelvin_sign = [CHR 0xE2, CHR 0x84, CHR 0xAA]"

fun ci_prefix :: "string \<Rightarrow> string \<Rightarrow> bool" where
  "ci_prefix [] t = True"
| "ci_prefix (n # ns) t =
     ((case t of [] \<Rightarrow> False | a # t' \<Rightarrow> ci_eq a n \<and> ci_prefix ns t') \<or>
      (n = CHR ''k'' \<and> prefix kelvin_sign t \<and> ci_prefix ns (drop 3 t)))"

fun contains_ci :: "string \<Rightarrow> string \<Rightarrow> bool" where
  "contains_ci [] needle = ci_prefix needle []"
| "contains_ci (a # t) needle = (ci_prefix needle (a # t) \<or> contains_ci t needle)"

text \<open>The characters of the needles: ASCII characters that are not capital letters, and digits.\<close>

definition plain :: "char \<Rightarrow> bool" where
  "plain x = ((of_char x :: nat) < 128 \<and> \<not> (65 \<le> (of_char x :: nat) \<and> (of_char x :: nat) \<le> 90))"

definition digit :: "char \<Rightarrow> bool" where
  "digit x = (48 \<le> (of_char x :: nat) \<and> (of_char x :: nat) \<le> 57)"

fun first_match :: "(string list \<times> string \<times> int) list \<Rightarrow> string \<Rightarrow> (string \<times> int) option" where
  "first_match [] s = None"
| "first_match ((needles, ty, code) # rules) s =
     (if list_ex (contains_ci s) needles then Some (ty, code) else first_match rules s)"

definition classify_spec :: "string \<Rightarrow> int option \<Rightarrow> string \<times> string \<times> int option" where
  "classify_spec s status_code =
     (case first_match classifier_rules s of
        Some (ty, code) \<Rightarrow> (s, ty, Some code)
      | None \<Rightarrow> (s, ''unknown_error'', status_code))"

text \<open>A sample record, used where a statement is evaluated on a concrete one.\<close>

definition example_comm :: "LLMProvider \<Rightarrow> string \<Rightarrow> int \<Rightarrow> int \<Rightarrow> LLMCommunication" where
  "example_comm prov mdl tin tout =
     \<lparr>comm_id = ''c1'', agent_id = ''a1'', agent_name = ''Dr. X'',
      agent_specialty = ''cardiology'', framework = CREWAI, provider = prov, model = mdl,
      session_start = 0, session_end = None,
      patient_id = None, patient_name = None, scenario_type = ''assessment'',
      messages = [], system_prompt = None,
      total_input_tokens = tin, total_output_tokens = tout, total_tokens = tin + tout,
      cost_estimate = 0, response_time_ms = 0,
      final_response = None, confidence_score = None,
      function_calls_made = [], tools_used = [],
      error_message = None, error_type = None, error_code = None, retry_count = 0\<rparr>"

text \<open>Every record is stored under its own identifier: what \<open>start_communication\<close> establishes
  and the other operations keep.\<close>

definition store_ok :: "LLMCommunicationTracker \<Rightarrow> bool" where
  "store_ok self = (\<forall>(k, c) \<in> set (communications self). comm_id c = k)"

text \<open>A call finalizes a session of the agent \<open>aid\<close> when it completes a stored record of that
  agent that has messages; a sequence of calls has no such call when none of its calls is one in
  the state it runs in.\<close>

fun finalizes :: "LLMCommunicationTracker \<Rightarrow> tracker_call \<Rightarrow> string \<Rightarrow> bool" where
  "finalizes self (Complete now cid fr rt cs em et ec rc) aid =
     (case get_communication self cid of
        None \<Rightarrow> False
      | Some c \<Rightarrow> messages c \<noteq> [] \<and> agent_id c = aid)"
| "finalizes self (Start cid now aid' aname aspecialty fw prov mdl pid pname scenario sysprompt) aid =
     False"
| "finalizes self (AddMessage mid now cid r ct tk fc tcs) aid = False"

fun no_finalization :: "LLMCommunicationTracker \<Rightarrow> string \<Rightarrow> tracker_call list \<Rightarrow> bool" where
  "no_finalization self aid [] = True"
| "no_finalization self aid (call # calls) =
     (\<not> finalizes self call aid \<and> no_finalization (step self call) aid calls)"

text \<open>The identifier a call generates for a new session, if it starts one. Identifiers are
  generated from the clock and a random suffix, so a new one differs from those in use.\<close>

fun started_id :: "tracker_call \<Rightarrow> string option" where
  "started_id (Start cid now aid aname aspecialty fw prov mdl pid pname scenario sysprompt) = Some cid"
| "started_id (AddMessage mid now cid r ct tk fc tcs) = None"
| "started_id (Complete now cid fr rt cs em et ec rc) = None"

text \<open>A sample sequence of calls: a session with two messages, and a second session left open.\<close>

definition example_calls :: "tracker_call list" where
  "example_calls =
     [Start ''c1'' 0 ''a1'' ''Dr. X'' ''cardiology'' AUTOGEN OPENAI ''gpt-4'' (Some ''p1'') None
        ''assessment'' None,
      AddMessage ''m1'' 1 ''c1'' ''user'' ''assess patient'' (Some 50) None None,
      AddMessage ''m2'' 2 ''c1'' ''assistant'' ''recommend follow-up'' (Some 30) None None,
      Start ''c2'' 3 ''a2'' ''Dr. Y'' ''oncology'' CREWAI OPENAI ''gpt-4'' None None
        ''assessment'' None]"

text \<open>Two states of a record agree on the fields that \<open>start_communication\<close> fixes.\<close>

definition same_session :: "LLMCommunication \<Rightarrow> LLMCommunication \<Rightarrow> bool" where
  "same_session c c' =
     (comm_id c' = comm_id c \<and> agent_id c' = agent_id c \<and> agent_name c' = agent_name c \<and>
      agent_specialty c' = agent_specialty c \<and> framework c' = framework c \<and>
      provider c' = provider c \<and> model c' = model c \<and> session_start c' = session_start c \<and>
      patient_id c' = patient_id c \<and> patient_name c' = patient_name c \<and>
      scenario_type c' = scenario_type c \<and> system_prompt c' = system_prompt c)"

text \<open>The record a call works on (the one it starts, adds a message to or completes), and the
  two kinds of call that write to a stored record.\<close>

fun target_id :: "tracker_call \<Rightarrow> string" where
  "target_id (Start cid now aid aname aspecialty fw prov mdl pid pname scenario sysprompt) = cid"
| "target_id (AddMessage mid now cid r ct tk fc tcs) = cid"
| "target_id (Complete now cid fr rt cs em et ec rc) = cid"

fun adds_message_to :: "string \<Rightarrow> tracker_call \<Rightarrow> bool" where
  "adds_message_to cid (AddMessage mid now k r ct tk fc tcs) = (k = cid)"
| "adds_message_to cid (Start k now aid aname aspecialty fw prov mdl pid pname scenario sysprompt) =
     False"
| "adds_message_to cid (Complete now k fr rt cs em et ec rc) = False"

fun completes :: "string \<Rightarrow> tracker_call \<Rightarrow> bool" where
  "completes cid (Complete now k fr rt cs em et ec rc) = (k = cid)"
| "completes cid (Start k now aid aname aspecialty fw prov mdl pid pname scenario sysprompt) = False"
| "completes cid (AddMessage mid now k r ct tk fc tcs) = False"

text \<open>Two states of a record agree on the fields \<open>add_message\<close> writes, and on the fields
  \<open>complete_communication\<close> writes. With the fields fixed at start these are all the fields.\<close>

definition same_content :: "LLMCommunication \<Rightarrow> LLMCommunication \<Rightarrow> bool" where
  "same_content c c' =
     (messages c' = messages c \<and> total_input_tokens c' = total_input_tokens c \<and>
      total_output_tokens c' = total_output_tokens c \<and> total_tokens c' = total_tokens c \<and>
      function_calls_made c' = function_calls_made c \<and> tools_used c' = tools_used c)"

definition same_outcome :: "LLMCommunication \<Rightarrow> LLMCommunication \<Rightarrow> bool" where
  "same_outcome c c' =
     (session_end c' = session_end c \<and> final_response c' = final_response c \<and>
      response_time_ms c' = response_time_ms c \<and> confidence_score c' = confidence_score c \<and>
      error_message c' = error_message c \<and> error_type c' = error_type c \<and>
      error_code c' = error_code c \<and> retry_count c' = retry_count c \<and>
      cost_estimate c' = cost_estimate c)"

section \<open>Properties\<close>

subsection \<open>Reading the store after an operation\<close>

lemma get_add_message:
  "get_communication (add_message mid now self cid r ct tk fc tcs) k =
     (if k = cid
      then map_option (record_message \<lparr>msg_id = mid, timestamp = now, role = r, content = ct,
             tokens = tk, function_call = fc, tool_calls = tcs\<rparr>) (get_communication self cid)
      else get_communication self k)"
  by (simp add: get_communication_def add_message_def update_conv' split: option.splits)

lemma get_start_communication:
  "get_communication (start_communication cid now self aid an asp fw pr md pid pn sc sp) k =
     (if k = cid
      then Some \<lparr>comm_id = cid, agent_id = aid, agent_name = an, agent_specialty = asp,
         framework = fw, provider = pr, model = md,
         session_start = now, session_end = None,
         patient_id = pid, patient_name = pn, scenario_type = sc,
         messages = [], system_prompt = sp,
         total_input_tokens = 0, total_output_tokens = 0, total_tokens = 0,
         cost_estimate = 0, response_time_ms = 0,
         final_response = None, confidence_score = None,
         function_calls_made = [], tools_used = [],
         error_message = None, error_type = None, error_code = None, retry_count = 0\<rparr>
      else get_communication self k)"
  by (simp add: get_communication_def start_communication_def update_conv')

lemma record_message_input:
  "total_input_tokens (record_message m c) =
     total_input_tokens c + (if role m = ''user'' \<or> role m = ''system'' then token_count m else 0)"
  by (simp add: record_message_def track_calls_def update_token_counts_def token_count_def Let_def
      split: option.splits)

lemma record_message_output:
  "total_output_tokens (record_message m c) =
     total_output_tokens c + (if role m = ''assistant'' then token_count m else 0)"
  by (simp add: record_message_def track_calls_def update_token_counts_def token_count_def Let_def
      split: option.splits)

lemma record_message_total:
  "total_tokens c = total_input_tokens c + total_output_tokens c \<Longrightarrow>
   total_tokens (record_message m c) =
     total_input_tokens (record_message m c) + total_output_tokens (record_message m c)"
  by (simp add: record_message_def track_calls_def update_token_counts_def Let_def
      split: option.splits)

lemma record_message_messages: "messages (record_message m c) = messages c @ [m]"
  by (simp add: record_message_def track_calls_def update_token_counts_def Let_def split: option.splits)

lemma record_message_session_end: "session_end (record_message m c) = session_end c"
  by (simp add: record_message_def track_calls_def update_token_counts_def Let_def split: option.splits)

lemma record_message_cost: "cost_estimate (record_message m c) = cost_estimate c"
  by (simp add: record_message_def track_calls_def update_token_counts_def Let_def split: option.splits)

lemma add_messages_Nil: "add_messages self cid [] = self"
  by (simp add: add_messages_def)

lemma add_messages_Cons:
  "add_messages self cid (m # ms) =
     add_messages (add_message (msg_id m) (timestamp m) self cid (role m) (content m) (tokens m)
        (function_call m) (tool_calls m)) cid ms"
  by (simp add: add_messages_def)

lemma add_messages_totals:
  "get_communication self cid = Some c \<Longrightarrow>
   \<exists>c'. get_communication (add_messages self cid ms) cid = Some c' \<and>
        total_input_tokens c' = total_input_tokens c + input_sum ms \<and>
        total_output_tokens c' = total_output_tokens c + output_sum ms \<and>
        (total_tokens c = total_input_tokens c + total_output_tokens c \<longrightarrow>
         total_tokens c' = total_input_tokens c' + total_output_tokens c')"
proof (induction ms arbitrary: self c)
  case Nil
  then show ?case by (simp add: add_messages_Nil input_sum_def output_sum_def)
next
  case (Cons m ms)
  let ?self' = "add_message (msg_id m) (timestamp m) self cid (role m) (content m) (tokens m)
        (function_call m) (tool_calls m)"
  have m: "\<lparr>msg_id = msg_id m, timestamp = timestamp m, role = role m, content = content m,
             tokens = tokens m, function_call = function_call m, tool_calls = tool_calls m\<rparr> = m"
    by simp
  have step: "get_communication ?self' cid = Some (record_message m c)"
    using Cons.prems by (simp add: get_add_message m)
  from Cons.IH [OF step] obtain c' where
    c': "get_communication (add_messages ?self' cid ms) cid = Some c'"
      "total_input_tokens c' = total_input_tokens (record_message m c) + input_sum ms"
      "total_output_tokens c' = total_output_tokens (record_message m c) + output_sum ms"
      "total_tokens (record_message m c) =
         total_input_tokens (record_message m c) + total_output_tokens (record_message m c) \<longrightarrow>
       total_tokens c' = total_input_tokens c' + total_output_tokens c'"
    by blast
  show ?case
    using c' record_message_total [of c m]
    by (auto simp: add_messages_Cons record_message_input record_message_output
        input_sum_def output_sum_def)
qed

lemma calculate_cost_cong:
  "provider c' = provider c \<Longrightarrow> model c' = model c \<Longrightarrow>
   total_input_tokens c' = total_input_tokens c \<Longrightarrow>
   total_output_tokens c' = total_output_tokens c \<Longrightarrow> calculate_cost c' = calculate_cost c"
  by (simp add: calculate_cost_def split: option.splits)

lemma get_complete_communication_nonempty:
  "get_communication self cid = Some c \<Longrightarrow> messages c \<noteq> [] \<Longrightarrow>
   get_communication
     (complete_communication now self cid fr rt cs em et ec rc) k =
     (if k = cid
      then Some (c\<lparr>session_end := Some now, final_response := Some fr, response_time_ms := rt,
                  confidence_score := cs, error_message := em, error_type := et,
                  error_code := ec, retry_count := rc, cost_estimate := calculate_cost c\<rparr>)
      else get_communication self k)"
proof -
  have "calculate_cost (c\<lparr>session_end := Some now, final_response := Some fr, response_time_ms := rt,
                  confidence_score := cs, error_message := em, error_type := et,
                  error_code := ec, retry_count := rc\<rparr>) = calculate_cost c"
    by (rule calculate_cost_cong) simp_all
  then show "get_communication self cid = Some c \<Longrightarrow> messages c \<noteq> [] \<Longrightarrow> ?thesis"
    by (simp add: get_communication_def complete_communication_def Let_def update_conv')
qed

text \<open>
  Claim C1. On a stored record, an \<open>add_message\<close> call carrying the token count \<open>n\<close> adds \<open>n\<close> to
  \<open>total_input_tokens\<close> when the role is \<open>user\<close> or \<open>system\<close>, to \<open>total_output_tokens\<close> when it is
  \<open>assistant\<close>, and to neither for any other role (\<open>function\<close> among them). After a sequence of
  calls on the record, the two totals have grown by the sums of the counts supplied with these
  roles; on a record just started they are equal to these sums.
\<close>

theorem add_message_accumulates_tokens:
  "(get_communication self cid = Some c \<longrightarrow>
      (\<exists>c'. get_communication (add_message mid t self cid r ct (Some n) fc tcs) cid = Some c' \<and>
         total_input_tokens c' =
           total_input_tokens c + (if r = ''user'' \<or> r = ''system'' then n else 0) \<and>
         total_output_tokens c' = total_output_tokens c + (if r = ''assistant'' then n else 0)) \<and>
      (\<exists>c'. get_communication (add_messages self cid ms) cid = Some c' \<and>
         total_input_tokens c' = total_input_tokens c + input_sum ms \<and>
         total_output_tokens c' = total_output_tokens c + output_sum ms)) \<and>
   (\<exists>c'. get_communication
            (add_messages (start_communication cid now self aid an asp fw pr md pid pn sc sp) cid ms)
            cid = Some c' \<and>
         total_input_tokens c' = input_sum ms \<and> total_output_tokens c' = output_sum ms)"
proof (intro conjI impI)
  assume c: "get_communication self cid = Some c"
  show "\<exists>c'. get_communication (add_message mid t self cid r ct (Some n) fc tcs) cid = Some c' \<and>
         total_input_tokens c' =
           total_input_tokens c + (if r = ''user'' \<or> r = ''system'' then n else 0) \<and>
         total_output_tokens c' = total_output_tokens c + (if r = ''assistant'' then n else 0)"
    using c
    by (simp add: get_add_message record_message_input record_message_output token_count_def)
  show "\<exists>c'. get_communication (add_messages self cid ms) cid = Some c' \<and>
         total_input_tokens c' = total_input_tokens c + input_sum ms \<and>
         total_output_tokens c' = total_output_tokens c + output_sum ms"
    using add_messages_totals [OF c, of ms] by blast
next
  let ?self = "start_communication cid now self aid an asp fw pr md pid pn sc sp"
  obtain c0 where c0: "get_communication ?self cid = Some c0"
    "total_input_tokens c0 = 0" "total_output_tokens c0 = 0"
    by (simp add: get_start_communication)
  from add_messages_totals [OF c0(1), of ms] c0(2,3)
  show "\<exists>c'. get_communication (add_messages ?self cid ms) cid = Some c' \<and>
         total_input_tokens c' = input_sum ms \<and> total_output_tokens c' = output_sum ms"
    by auto
qed

theorem add_message_accumulates_tokens_witness:
  "get_communication
     (start_communication ''c1'' 0 (init None) ''a1'' ''Dr. X'' ''cardiology'' AUTOGEN OPENAI ''gpt-4''
        (Some ''p1'') None ''assessment'' None) ''c1'' \<noteq> None \<and>
   (\<exists>c'. get_communication
      (add_messages
        (start_communication ''c1'' 0 (init None) ''a1'' ''Dr. X'' ''cardiology'' AUTOGEN OPENAI ''gpt-4''
           (Some ''p1'') None ''assessment'' None)
        ''c1''
        [\<lparr>msg_id = ''m1'', timestamp = 1, role = ''user'', content = ''assess patient'',
          tokens = Some 50, function_call = None, tool_calls = None\<rparr>,
         \<lparr>msg_id = ''m2'', timestamp = 2, role = ''function'', content = ''lookup'',
          tokens = Some 7, function_call = None, tool_calls = None\<rparr>,
         \<lparr>msg_id = ''m3'', timestamp = 3, role = ''assistant'', content = ''recommend follow-up'',
          tokens = Some 30, function_call = None, tool_calls = None\<rparr>,
         \<lparr>msg_id = ''m4'', timestamp = 4, role = ''system'', content = ''note'',
          tokens = Some 5, function_call = None, tool_calls = None\<rparr>]) ''c1'' = Some c' \<and>
      total_input_tokens c' = 55 \<and> total_output_tokens c' = 30)"
  using add_message_accumulates_tokens
    [where self = "start_communication ''c1'' 0 (init None) ''a1'' ''Dr. X'' ''cardiology'' AUTOGEN
        OPENAI ''gpt-4'' (Some ''p1'') None ''assessment'' None"
      and cid = "''c1''"
      and c = "\<lparr>comm_id = ''c1'', agent_id = ''a1'', agent_name = ''Dr. X'',
         agent_specialty = ''cardiology'', framework = AUTOGEN, provider = OPENAI, model = ''gpt-4'',
         session_start = 0, session_end = None,
         patient_id = Some ''p1'', patient_name = None, scenario_type = ''assessment'',
         messages = [], system_prompt = None,
         total_input_tokens = 0, total_output_tokens = 0, total_tokens = 0,
         cost_estimate = 0, response_time_ms = 0,
         final_response = None, confidence_score = None,
         function_calls_made = [], tools_used = [],
         error_message = None, error_type = None, error_code = None, retry_count = 0\<rparr>"
      and ms = "[\<lparr>msg_id = ''m1'', timestamp = 1, role = ''user'', content = ''assess patient'',
          tokens = Some 50, function_call = None, tool_calls = None\<rparr>,
         \<lparr>msg_id = ''m2'', timestamp = 2, role = ''function'', content = ''lookup'',
          tokens = Some 7, function_call = None, tool_calls = None\<rparr>,
         \<lparr>msg_id = ''m3'', timestamp = 3, role = ''assistant'', content = ''recommend follow-up'',
          tokens = Some 30, function_call = None, tool_calls = None\<rparr>,
         \<lparr>msg_id = ''m4'', timestamp = 4, role = ''system'', content = ''note'',
          tokens = Some 5, function_call = None, tool_calls = None\<rparr>]"]
  by (simp add: get_start_communication input_sum_def output_sum_def token_count_def)

text \<open>
  Claim C5. The cost of a record is \<open>(input_tokens/1000)*input_price +
  (output_tokens/1000)*output_price\<close> at the prices the table gives for its provider and model
  (for \<open>openai\<close> and \<open>gpt-4\<close>: 0.03 and 0.06), and 0 for every provider or model the table does not
  list. Completing a record with messages stores this amount in \<open>cost_estimate\<close>; after 1000
  input and 1000 output tokens on \<open>gpt-4\<close> it is 0.09.
\<close>

theorem calculate_cost_formula:
  "(map_of pricing (provider comm) = Some models \<and> map_of models (model comm) = Some mp \<longrightarrow>
      calculate_cost comm =
        (real_of_int (total_input_tokens comm) / 1000) * input_price mp +
        (real_of_int (total_output_tokens comm) / 1000) * output_price mp) \<and>
   (provider comm = OPENAI \<and> model comm = ''gpt-4'' \<longrightarrow>
      calculate_cost comm =
        (real_of_int (total_input_tokens comm) / 1000) * 0.03 +
        (real_of_int (total_output_tokens comm) / 1000) * 0.06) \<and>
   (provider comm \<noteq> OPENAI \<or>
      model comm \<notin> {''gpt-4'', ''gpt-4-turbo'', ''gpt-3.5-turbo''} \<longrightarrow>
      calculate_cost comm = 0) \<and>
   (get_communication self cid = Some comm \<and> messages comm \<noteq> [] \<longrightarrow>
      (\<exists>c'. get_communication (complete_communication now self cid fr rt cs em et ec rc) cid = Some c' \<and>
            cost_estimate c' = calculate_cost comm)) \<and>
   (\<exists>c'. get_communication
      (run (init None)
         [Start ''c1'' 0 ''a1'' ''Dr. X'' ''cardiology'' AUTOGEN OPENAI ''gpt-4'' (Some ''p1'') None
            ''assessment'' None,
          AddMessage ''m1'' 1 ''c1'' ''user'' ''assess patient'' (Some 1000) None None,
          AddMessage ''m2'' 2 ''c1'' ''assistant'' ''recommend follow-up'' (Some 1000) None None,
          Complete 3 ''c1'' ''recommend follow-up'' 1200 None None None None 0]) ''c1'' = Some c' \<and>
      cost_estimate c' = 0.09)"
proof (intro conjI impI)
  assume "map_of pricing (provider comm) = Some models \<and> map_of models (model comm) = Some mp"
  then show "calculate_cost comm =
        (real_of_int (total_input_tokens comm) / 1000) * input_price mp +
        (real_of_int (total_output_tokens comm) / 1000) * output_price mp"
    by (simp add: calculate_cost_def)
next
  assume "provider comm = OPENAI \<and> model comm = ''gpt-4''"
  then show "calculate_cost comm =
        (real_of_int (total_input_tokens comm) / 1000) * 0.03 +
        (real_of_int (total_output_tokens comm) / 1000) * 0.06"
    by (simp add: calculate_cost_def pricing_def)
next
  assume "provider comm \<noteq> OPENAI \<or>
      model comm \<notin> {''gpt-4'', ''gpt-4-turbo'', ''gpt-3.5-turbo''}"
  then show "calculate_cost comm = 0"
    by (auto simp: calculate_cost_def pricing_def split: option.splits)
next
  assume "get_communication self cid = Some comm \<and> messages comm \<noteq> []"
  then show "\<exists>c'. get_communication (complete_communication now self cid fr rt cs em et ec rc) cid = Some c' \<and>
            cost_estimate c' = calculate_cost comm"
    by (simp add: get_complete_communication_nonempty)
next
  show "\<exists>c'. get_communication
      (run (init None)
         [Start ''c1'' 0 ''a1'' ''Dr. X'' ''cardiology'' AUTOGEN OPENAI ''gpt-4'' (Some ''p1'') None
            ''assessment'' None,
          AddMessage ''m1'' 1 ''c1'' ''user'' ''assess patient'' (Some 1000) None None,
          AddMessage ''m2'' 2 ''c1'' ''assistant'' ''recommend follow-up'' (Some 1000) None None,
          Complete 3 ''c1'' ''recommend follow-up'' 1200 None None None None 0]) ''c1'' = Some c' \<and>
      cost_estimate c' = 0.09"
    by (simp add: run_def get_complete_communication_nonempty get_add_message
        get_start_communication record_message_def track_calls_def update_token_counts_def
        Let_def calculate_cost_def pricing_def)
qed

theorem calculate_cost_formula_witness:
  "calculate_cost (example_comm OPENAI ''gpt-4-turbo'' 2000 1000) = 0.05 \<and>
   calculate_cost (example_comm OPENAI ''gpt-4'' 1000 1000) = 0.09 \<and>
   calculate_cost (example_comm OPENAI ''made-up-model'' 1000 1000) = 0 \<and>
   calculate_cost (example_comm ANTHROPIC ''gpt-4'' 1000 1000) = 0"
  using
    calculate_cost_formula
      [where comm = "example_comm OPENAI ''gpt-4-turbo'' 2000 1000"
         and models = "[(''gpt-4'', \<lparr>input_price = 0.03, output_price = 0.06\<rparr>),
                        (''gpt-4-turbo'', \<lparr>input_price = 0.01, output_price = 0.03\<rparr>),
                        (''gpt-3.5-turbo'', \<lparr>input_price = 0.0015, output_price = 0.002\<rparr>)]"
         and mp = "\<lparr>input_price = 0.01, output_price = 0.03\<rparr>"]
    calculate_cost_formula [where comm = "example_comm OPENAI ''gpt-4'' 1000 1000"]
    calculate_cost_formula [where comm = "example_comm OPENAI ''made-up-model'' 1000 1000"]
    calculate_cost_formula [where comm = "example_comm ANTHROPIC ''gpt-4'' 1000 1000"]
  by (simp add: example_comm_def pricing_def)

subsection \<open>The error classifier\<close>

lemma contains_sublist: "contains s needle = sublist needle s"
  by (induction s) (auto simp: sublist_Cons_right)

lemma upper_letters: "map char_of [65..<Suc 90 :: nat] = ''ABCDEFGHIJKLMNOPQRSTUVWXYZ''"
  by code_simp

lemma upper_cases:
  "(65 \<le> (of_char a :: nat) \<and> (of_char a :: nat) \<le> 90) = (a \<in> set ''ABCDEFGHIJKLMNOPQRSTUVWXYZ'')"
proof
  assume "65 \<le> (of_char a :: nat) \<and> (of_char a :: nat) \<le> 90"
  then have "(of_char a :: nat) \<in> set [65..<Suc 90]"
    by (simp only: set_upt atLeastLessThan_iff less_Suc_eq_le)
  then have "char_of (of_char a :: nat) \<in> set (map char_of [65..<Suc 90 :: nat])"
    by (simp only: set_map) (rule imageI)
  then show "a \<in> set ''ABCDEFGHIJKLMNOPQRSTUVWXYZ''"
    by (simp only: upper_letters char_of_char)
next
  assume "a \<in> set ''ABCDEFGHIJKLMNOPQRSTUVWXYZ''"
  then have "a \<in> set (map char_of [65..<Suc 90 :: nat])"
    by (simp only: upper_letters)
  then obtain n :: nat where "a = char_of n" "65 \<le> n" "n \<le> 90"
    by auto
  then show "65 \<le> (of_char a :: nat) \<and> (of_char a :: nat) \<le> 90"
    by simp
qed

lemma lower_letters:
  "''abcdefghijklmnopqrstuvwxyz'' =
     map (\<lambda>c. char_of ((of_char c :: nat) + 32)) ''ABCDEFGHIJKLMNOPQRSTUVWXYZ''"
  by code_simp

lemma lower_char_arith:
  "lower_char a =
     (if 65 \<le> (of_char a :: nat) \<and> (of_char a :: nat) \<le> 90
      then char_of ((of_char a :: nat) + 32) else a)"
  unfolding lower_char_def upper_cases
  by (subst lower_letters) (simp only: map_of_zip_map split: if_splits, simp)

lemma lower_char_ci_eq: "plain x \<Longrightarrow> (x = lower_char a) = ci_eq a x"
  unfolding lower_char_arith plain_def ci_eq_def
  by (auto simp: of_char_eq_iff [symmetric, where ?'a = nat] simp del: of_char_eq_iff)

lemma ci_eq_high: "plain x \<Longrightarrow> 128 \<le> (of_char a :: nat) \<Longrightarrow> \<not> ci_eq a x \<and> x \<noteq> a \<and> a \<noteq> x"
  by (auto simp: plain_def ci_eq_def)

lemma lower_char_high: "128 \<le> (of_char a :: nat) \<Longrightarrow> lower_char a = a"
  by (simp add: lower_char_arith)

lemma high_bytes:
  "128 \<le> (of_char (CHR 0xE2) :: nat)" "128 \<le> (of_char (CHR 0x84) :: nat)"
  "128 \<le> (of_char (CHR 0xAA) :: nat)" "128 \<le> (of_char (CHR 0xC4) :: nat)"
  "128 \<le> (of_char (CHR 0xB0) :: nat)" "128 \<le> (of_char (CHR 0xCC) :: nat)"
  "128 \<le> (of_char (CHR 0x87) :: nat)"
  by simp_all

lemma plain_k: "plain (CHR ''k'')" "plain (CHR ''i'')"
  by (simp_all add: plain_def)

lemma ci_prefix_Nil: "ci_prefix n [] = (n = [])"
  by (cases n) (simp_all add: kelvin_sign_def)

lemma prefix_lower:
  "\<forall>x \<in> set n. plain x \<Longrightarrow> n = [] \<or> last n \<noteq> CHR ''i'' \<Longrightarrow>
   prefix n (lower t) = ci_prefix n t"
proof (induction t arbitrary: n rule: lower.induct)
  case (1 a b c cs)
  show ?case
  proof (cases n)
    case Nil
    then show ?thesis by simp
  next
    case (Cons x n')
    with "1.prems" have x: "plain x" and n': "\<forall>x \<in> set n'. plain x"
      "n' = [] \<or> last n' \<noteq> CHR ''i''"
      by (auto split: if_splits)
    from "1.prems" Cons have xi: "x = CHR ''i'' \<Longrightarrow> n' \<noteq> []"
      by auto
    consider (kelvin) "[a, b, c] = [CHR 0xE2, CHR 0x84, CHR 0xAA]"
      | (dotted) "[a, b, c] \<noteq> [CHR 0xE2, CHR 0x84, CHR 0xAA]" "[a, b] = [CHR 0xC4, CHR 0xB0]"
      | (other) "[a, b, c] \<noteq> [CHR 0xE2, CHR 0x84, CHR 0xAA]" "[a, b] \<noteq> [CHR 0xC4, CHR 0xB0]"
      by blast
    then show ?thesis
    proof cases
      case kelvin
      from "1.IH"(1) [OF kelvin n'] kelvin x show ?thesis
        using ci_eq_high [OF x high_bytes(1)]
        by (simp add: Cons kelvin_sign_def)
    next
      case dotted
      have "\<not> prefix n' (CHR 0xCC # CHR 0x87 # lower (c # cs))" if "x = CHR ''i''"
      proof (cases n')
        case Nil
        with xi that show ?thesis by simp
      next
        case (Cons y n'')
        with n' have "plain y" by simp
        from ci_eq_high [OF this high_bytes(6)] Cons show ?thesis by simp
      qed
      with dotted x show ?thesis
        using ci_eq_high [OF x high_bytes(4)]
        by (auto simp: Cons kelvin_sign_def)
    next
      case other
      from "1.IH"(3) [OF other n'] other x show ?thesis
        by (auto simp: Cons kelvin_sign_def lower_char_ci_eq)
    qed
  qed
next
  case (2 a b)
  show ?case
  proof (cases n)
    case Nil
    then show ?thesis by simp
  next
    case (Cons x n')
    with "2.prems" have x: "plain x" and n': "\<forall>x \<in> set n'. plain x"
      "n' = [] \<or> last n' \<noteq> CHR ''i''"
      by (auto split: if_splits)
    from "2.prems" Cons have xi: "x = CHR ''i'' \<Longrightarrow> n' \<noteq> []"
      by auto
    show ?thesis
    proof (cases "[a, b] = [CHR 0xC4, CHR 0xB0]")
      case True
      have "\<not> prefix n' [CHR 0xCC, CHR 0x87]" if "x = CHR ''i''"
      proof (cases n')
        case Nil
        with xi that show ?thesis by simp
      next
        case (Cons y n'')
        with n' have "plain y" by simp
        from ci_eq_high [OF this high_bytes(6)] Cons show ?thesis by simp
      qed
      with True x show ?thesis
        using ci_eq_high [OF x high_bytes(4)]
        by (auto simp: Cons kelvin_sign_def)
    next
      case False
      from "2.IH" [OF False n'] False x show ?thesis
        by (auto simp: Cons kelvin_sign_def lower_char_ci_eq)
    qed
  qed
next
  case (3 a)
  then show ?case
    by (cases n) (auto simp: kelvin_sign_def lower_char_ci_eq ci_prefix_Nil)
next
  case 4
  then show ?case
    by (simp add: ci_prefix_Nil)
qed

lemma ci_prefix_high:
  "n \<noteq> [] \<Longrightarrow> \<forall>x \<in> set n. plain x \<Longrightarrow> 128 \<le> (of_char a :: nat) \<Longrightarrow> a \<noteq> CHR 0xE2 \<Longrightarrow>
   \<not> ci_prefix n (a # t)"
  by (cases n) (auto simp: kelvin_sign_def dest: ci_eq_high)

lemma prefix_high:
  "n \<noteq> [] \<Longrightarrow> \<forall>x \<in> set n. plain x \<Longrightarrow> 128 \<le> (of_char a :: nat) \<Longrightarrow> \<not> prefix n (a # t)"
  by (cases n) (auto dest: ci_eq_high)

lemma lower_other:
  "[a, b, c] \<noteq> [CHR 0xE2, CHR 0x84, CHR 0xAA] \<Longrightarrow> [a, b] \<noteq> [CHR 0xC4, CHR 0xB0] \<Longrightarrow>
   lower (a # b # c # cs) = lower_char a # lower (b # c # cs)"
  by auto

lemma lower_other2:
  "[a, b] \<noteq> [CHR 0xC4, CHR 0xB0] \<Longrightarrow> lower [a, b] = lower_char a # lower [b]"
  by auto

lemma contains_lower:
  assumes n: "n \<noteq> []" "\<forall>x \<in> set n. plain x" "last n \<noteq> CHR ''i''"
  shows "contains (lower s) n = contains_ci s n"
proof (induction s rule: lower.induct)
  case (1 a b c cs)
  from n have pl: "prefix n (lower t) = ci_prefix n t" for t
    by (simp add: prefix_lower)
  consider (kelvin) "[a, b, c] = [CHR 0xE2, CHR 0x84, CHR 0xAA]"
    | (dotted) "[a, b, c] \<noteq> [CHR 0xE2, CHR 0x84, CHR 0xAA]" "[a, b] = [CHR 0xC4, CHR 0xB0]"
    | (other) "[a, b, c] \<noteq> [CHR 0xE2, CHR 0x84, CHR 0xAA]" "[a, b] \<noteq> [CHR 0xC4, CHR 0xB0]"
    by blast
  then show ?case
  proof cases
    case kelvin
    have "contains (lower (a # b # c # cs)) n =
            (prefix n (lower (a # b # c # cs)) \<or> contains (lower cs) n)"
      using kelvin by simp
    also have "\<dots> = (ci_prefix n (a # b # c # cs) \<or> contains_ci cs n)"
      using "1.IH"(1) [OF kelvin] by (simp only: pl)
    also have "\<dots> = contains_ci (a # b # c # cs) n"
      using kelvin ci_prefix_high [OF n(1,2) high_bytes(2), of "c # cs"]
        ci_prefix_high [OF n(1,2) high_bytes(3), of cs]
      by simp
    finally show ?thesis .
  next
    case dotted
    have "contains (lower (a # b # c # cs)) n =
            (prefix n (lower (a # b # c # cs)) \<or> contains (lower (c # cs)) n)"
      using dotted prefix_high [OF n(1,2) high_bytes(6), of "CHR 0x87 # lower (c # cs)"]
        prefix_high [OF n(1,2) high_bytes(7), of "lower (c # cs)"]
      by simp
    also have "\<dots> = (ci_prefix n (a # b # c # cs) \<or> contains_ci (c # cs) n)"
      using "1.IH"(2) [OF dotted] by (simp only: pl)
    also have "\<dots> = contains_ci (a # b # c # cs) n"
      using dotted ci_prefix_high [OF n(1,2) high_bytes(5), of "c # cs"]
      by simp
    finally show ?thesis .
  next
    case other
    have "contains (lower (a # b # c # cs)) n =
            (prefix n (lower (a # b # c # cs)) \<or> contains (lower (b # c # cs)) n)"
      unfolding lower_other [OF other] by simp
    also have "\<dots> = (ci_prefix n (a # b # c # cs) \<or> contains_ci (b # c # cs) n)"
      using "1.IH"(3) [OF other] by (simp only: pl)
    also have "\<dots> = contains_ci (a # b # c # cs) n"
      by simp
    finally show ?thesis .
  qed
next
  case (2 a b)
  from n have pl: "prefix n (lower t) = ci_prefix n t" for t
    by (simp add: prefix_lower)
  show ?case
  proof (cases "[a, b] = [CHR 0xC4, CHR 0xB0]")
    case True
    have "contains (lower [a, b]) n = prefix n (lower [a, b])"
      using True n(1) prefix_high [OF n(1,2) high_bytes(6), of "[CHR 0x87]"]
        prefix_high [OF n(1,2) high_bytes(7), of "[]"]
      by simp
    also have "\<dots> = ci_prefix n [a, b]"
      by (simp only: pl)
    also have "\<dots> = contains_ci [a, b] n"
      using True n(1) ci_prefix_high [OF n(1,2) high_bytes(5), of "[]"]
      by (simp add: ci_prefix_Nil)
    finally show ?thesis .
  next
    case False
    have "contains (lower [a, b]) n = (prefix n (lower [a, b]) \<or> contains (lower [b]) n)"
      unfolding lower_other2 [OF False] by simp
    also have "\<dots> = (ci_prefix n [a, b] \<or> contains_ci [b] n)"
      using "2.IH" [OF False] by (simp only: pl)
    also have "\<dots> = contains_ci [a, b] n"
      by simp
    finally show ?thesis .
  qed
next
  case (3 a)
  from n have pl: "prefix n (lower t) = ci_prefix n t" for t
    by (simp add: prefix_lower)
  have "contains (lower [a]) n = prefix n (lower [a])"
    using n(1) by simp
  also have "\<dots> = ci_prefix n [a]"
    by (simp only: pl)
  also have "\<dots> = contains_ci [a] n"
    using n(1) by (simp add: ci_prefix_Nil)
  finally show ?case .
next
  case 4
  from n(1) show ?case by (simp add: ci_prefix_Nil)
qed

lemma ci_prefix_digits: "\<forall>x \<in> set n. digit x \<Longrightarrow> ci_prefix n t = prefix n t"
proof (induction n arbitrary: t)
  case Nil
  then show ?case by simp
next
  case (Cons x n)
  then have "ci_eq a x = (a = x)" for a
    by (auto simp: ci_eq_def digit_def)
  moreover from Cons.prems have "x \<noteq> CHR ''k''"
    by (auto simp: digit_def)
  ultimately show ?case
    using Cons by (cases t) (auto simp: eq_commute)
qed

lemma contains_digits: "\<forall>x \<in> set n. digit x \<Longrightarrow> contains s n = contains_ci s n"
  by (induction s) (simp_all add: ci_prefix_digits ci_prefix_Nil)

lemma lower_needles:
  "contains (lower s) ''insufficient_quota'' = contains_ci s ''insufficient_quota''"
  "contains (lower s) ''quota'' = contains_ci s ''quota''"
  "contains (lower s) ''rate limit'' = contains_ci s ''rate limit''"
  "contains (lower s) ''invalid api key'' = contains_ci s ''invalid api key''"
  "contains (lower s) ''unauthorized'' = contains_ci s ''unauthorized''"
  "contains (lower s) ''api key specified is not a valid openai format'' =
     contains_ci s ''api key specified is not a valid openai format''"
  by (rule contains_lower; simp add: plain_def)+

lemma digit_needles:
  "contains s ''429'' = contains_ci s ''429''"
  "contains s ''401'' = contains_ci s ''401''"
  "contains s ''400'' = contains_ci s ''400''"
  "contains s ''500'' = contains_ci s ''500''"
  by (rule contains_digits; simp add: digit_def)+

lemma parse_refines: "parse_openai_error e = classify_spec (exc_str e) (exc_status_code e)"
  unfolding parse_openai_error_def Let_def lower_needles digit_needles
  by (simp add: classify_spec_def classifier_rules_def)

lemma contains_ci_quota: "contains_ci s ''insufficient_quota'' \<Longrightarrow> contains_ci s ''quota''"
proof -
  have "sublist ''quota'' ''insufficient_quota''"
    by (simp add: contains_sublist [symmetric])
  then have "sublist ''insufficient_quota'' (lower s) \<Longrightarrow> sublist ''quota'' (lower s)"
    by (rule sublist_order.order.trans)
  then show "contains_ci s ''insufficient_quota'' \<Longrightarrow> contains_ci s ''quota''"
    by (simp add: lower_needles [symmetric] contains_sublist)
qed

lemma ci_prefix_window: "list_all2 ci_eq m n \<Longrightarrow> ci_prefix n (m @ ss)"
  by (induction rule: list_all2_induct) auto

lemma contains_ci_append: "ci_prefix n t \<Longrightarrow> contains_ci (ps @ t) n"
proof (induction ps)
  case Nil
  then show ?case by (cases t) simp_all
next
  case (Cons a ps)
  then show ?case by simp
qed

lemma contains_ci_window: "list_all2 ci_eq m n \<Longrightarrow> contains_ci (ps @ m @ ss) n"
  by (simp add: ci_prefix_window contains_ci_append)

text \<open>
  Claim C6. The classifier is the ordered rule list of the specification, matched without regard to
  case, the first matching rule deciding. So a text containing \<open>quota\<close>, in whatever mix of
  capital and small letters, is \<open>quota_exceeded\<close> with code 429 whatever else it contains (\<open>401\<close>
  included); a text with no \<open>quota\<close> but with \<open>rate limit\<close> or \<open>429\<close> is \<open>rate_limit\<close> with code
  429; and a text no rule matches is \<open>unknown_error\<close> with the exception's own status code, which
  is null when it has none.
\<close>

theorem parse_openai_error_priority:
  "parse_openai_error e = classify_spec (exc_str e) (exc_status_code e) \<and>
   (contains_ci (exc_str e) ''quota'' \<longrightarrow>
      parse_openai_error e = (exc_str e, ''quota_exceeded'', Some 429)) \<and>
   (exc_str e = ps @ m @ ss \<and> list_all2 ci_eq m ''quota'' \<longrightarrow>
      parse_openai_error e = (exc_str e, ''quota_exceeded'', Some 429)) \<and>
   (\<not> contains_ci (exc_str e) ''quota'' \<and>
    (contains_ci (exc_str e) ''rate limit'' \<or> contains_ci (exc_str e) ''429'') \<longrightarrow>
      parse_openai_error e = (exc_str e, ''rate_limit'', Some 429)) \<and>
   (first_match classifier_rules (exc_str e) = None \<longrightarrow>
      parse_openai_error e = (exc_str e, ''unknown_error'', exc_status_code e))"
  using contains_ci_quota [of "exc_str e"] contains_ci_window [of m "''quota''" ps ss]
  by (auto simp: parse_refines classify_spec_def classifier_rules_def)

theorem parse_openai_error_priority_witness:
  "parse_openai_error
     \<lparr>exc_str = ''You exceeded your current Quota (401)'', exc_status_code = Some 401,
      exc_retry_count = None\<rparr> =
     (''You exceeded your current Quota (401)'', ''quota_exceeded'', Some 429) \<and>
   parse_openai_error
     \<lparr>exc_str = ''INSUFFICIENT_QUOTA'', exc_status_code = None, exc_retry_count = None\<rparr> =
     (''INSUFFICIENT_QUOTA'', ''quota_exceeded'', Some 429) \<and>
   parse_openai_error
     \<lparr>exc_str = ''Rate limit reached, please retry. (429)'', exc_status_code = None,
      exc_retry_count = None\<rparr> =
     (''Rate limit reached, please retry. (429)'', ''rate_limit'', Some 429) \<and>
   parse_openai_error
     \<lparr>exc_str = ''Incorrect API key provided... 401 Unauthorized'', exc_status_code = None,
      exc_retry_count = None\<rparr> =
     (''Incorrect API key provided... 401 Unauthorized'', ''auth_failed'', Some 401) \<and>
   parse_openai_error
     \<lparr>exc_str = ''INVALID API '' @ [CHR 0xE2, CHR 0x84, CHR 0xAA] @ ''EY'',
      exc_status_code = None, exc_retry_count = None\<rparr> =
     (''INVALID API '' @ [CHR 0xE2, CHR 0x84, CHR 0xAA] @ ''EY'', ''auth_failed'', Some 401) \<and>
   parse_openai_error
     \<lparr>exc_str = ''connection reset'', exc_status_code = Some 503, exc_retry_count = None\<rparr> =
     (''connection reset'', ''unknown_error'', Some 503) \<and>
   parse_openai_error
     \<lparr>exc_str = ''connection reset'', exc_status_code = None, exc_retry_count = None\<rparr> =
     (''connection reset'', ''unknown_error'', None)"
proof -
  have quota: "contains_ci ''You exceeded your current Quota (401)'' ''quota''"
    by code_simp
  have capitals: "list_all2 ci_eq ''QUOTA'' ''quota''"
    by code_simp
  have rate: "\<not> contains_ci ''Rate limit reached, please retry. (429)'' ''quota''"
    "contains_ci ''Rate limit reached, please retry. (429)'' ''rate limit''"
    by code_simp+
  have auth: "classify_spec ''Incorrect API key provided... 401 Unauthorized'' None =
     (''Incorrect API key provided... 401 Unauthorized'', ''auth_failed'', Some 401)"
    by code_simp
  have kelvin: "classify_spec (''INVALID API '' @ [CHR 0xE2, CHR 0x84, CHR 0xAA] @ ''EY'') None =
     (''INVALID API '' @ [CHR 0xE2, CHR 0x84, CHR 0xAA] @ ''EY'', ''auth_failed'', Some 401)"
    by code_simp
  have none: "first_match classifier_rules ''connection reset'' = None"
    by code_simp
  have "parse_openai_error
     \<lparr>exc_str = ''You exceeded your current Quota (401)'', exc_status_code = Some 401,
      exc_retry_count = None\<rparr> =
     (''You exceeded your current Quota (401)'', ''quota_exceeded'', Some 429)"
    using quota
      parse_openai_error_priority
        [of "\<lparr>exc_str = ''You exceeded your current Quota (401)'', exc_status_code = Some 401,
              exc_retry_count = None\<rparr>", THEN conjunct2, THEN conjunct1]
    by (simp only: py_exception.select_convs simp_thms)
  moreover have "parse_openai_error
     \<lparr>exc_str = ''INSUFFICIENT_QUOTA'', exc_status_code = None, exc_retry_count = None\<rparr> =
     (''INSUFFICIENT_QUOTA'', ''quota_exceeded'', Some 429)"
    using capitals
      parse_openai_error_priority
        [where e = "\<lparr>exc_str = ''INSUFFICIENT_QUOTA'', exc_status_code = None,
                      exc_retry_count = None\<rparr>"
           and ps = "''INSUFFICIENT_''" and m = "''QUOTA''" and ss = "[]",
         THEN conjunct2, THEN conjunct2, THEN conjunct1]
    by (simp only: py_exception.select_convs simp_thms append.simps append_Nil2)
  moreover have "parse_openai_error
     \<lparr>exc_str = ''Rate limit reached, please retry. (429)'', exc_status_code = None,
      exc_retry_count = None\<rparr> =
     (''Rate limit reached, please retry. (429)'', ''rate_limit'', Some 429)"
    using rate
      parse_openai_error_priority
        [of "\<lparr>exc_str = ''Rate limit reached, please retry. (429)'', exc_status_code = None,
              exc_retry_count = None\<rparr>",
         THEN conjunct2, THEN conjunct2, THEN conjunct2, THEN conjunct1]
    by (simp only: py_exception.select_convs simp_thms)
  moreover have "parse_openai_error
     \<lparr>exc_str = ''Incorrect API key provided... 401 Unauthorized'', exc_status_code = None,
      exc_retry_count = None\<rparr> =
     (''Incorrect API key provided... 401 Unauthorized'', ''auth_failed'', Some 401)"
    using auth
      parse_openai_error_priority
        [of "\<lparr>exc_str = ''Incorrect API key provided... 401 Unauthorized'',
              exc_status_code = None, exc_retry_count = None\<rparr>", THEN conjunct1]
    by (simp only: py_exception.select_convs simp_thms)
  moreover have "parse_openai_error
     \<lparr>exc_str = ''INVALID API '' @ [CHR 0xE2, CHR 0x84, CHR 0xAA] @ ''EY'',
      exc_status_code = None, exc_retry_count = None\<rparr> =
     (''INVALID API '' @ [CHR 0xE2, CHR 0x84, CHR 0xAA] @ ''EY'', ''auth_failed'', Some 401)"
    using kelvin
      parse_openai_error_priority
        [of "\<lparr>exc_str = ''INVALID API '' @ [CHR 0xE2, CHR 0x84, CHR 0xAA] @ ''EY'',
              exc_status_code = None, exc_retry_count = None\<rparr>", THEN conjunct1]
    by (simp only: py_exception.select_convs simp_thms)
  moreover have "parse_openai_error
     \<lparr>exc_str = ''connection reset'', exc_status_code = Some 503, exc_retry_count = None\<rparr> =
     (''connection reset'', ''unknown_error'', Some 503)"
    using none
      parse_openai_error_priority
        [of "\<lparr>exc_str = ''connection reset'', exc_status_code = Some 503,
              exc_retry_count = None\<rparr>",
         THEN conjunct2, THEN conjunct2, THEN conjunct2, THEN conjunct2]
    by (simp only: py_exception.select_convs simp_thms)
  moreover have "parse_openai_error
     \<lparr>exc_str = ''connection reset'', exc_status_code = None, exc_retry_count = None\<rparr> =
     (''connection reset'', ''unknown_error'', None)"
    using none
      parse_openai_error_priority
        [of "\<lparr>exc_str = ''connection reset'', exc_status_code = None, exc_retry_count = None\<rparr>",
         THEN conjunct2, THEN conjunct2, THEN conjunct2, THEN conjunct2]
    by (simp only: py_exception.select_convs simp_thms)
  ultimately show ?thesis by blast
qed

subsection \<open>Invariants of the store\<close>

lemma set_update_cases:
  "(k', v') \<in> set (AList.update k v al) \<Longrightarrow> (k', v') \<in> set al \<or> (k' = k \<and> v' = v)"
  by (induction al) (auto split: if_splits)

lemma set_delete_subset: "set (AList.delete k al) \<subseteq> set al"
  by (auto simp: AList.delete_eq)

lemma run_Nil: "run self [] = self"
  by (simp add: run_def)

lemma run_Cons: "run self (call # calls) = run (step self call) calls"
  by (simp add: run_def)

lemma run_append: "run self (calls @ calls') = run (run self calls) calls'"
  by (simp add: run_def)

lemma communications_start:
  "communications (start_communication cid now self aid an asp fw pr md pid pn sc sp) =
     AList.update cid
       \<lparr>comm_id = cid, agent_id = aid, agent_name = an, agent_specialty = asp,
         framework = fw, provider = pr, model = md,
         session_start = now, session_end = None,
         patient_id = pid, patient_name = pn, scenario_type = sc,
         messages = [], system_prompt = sp,
         total_input_tokens = 0, total_output_tokens = 0, total_tokens = 0,
         cost_estimate = 0, response_time_ms = 0,
         final_response = None, confidence_score = None,
         function_calls_made = [], tools_used = [],
         error_message = None, error_type = None, error_code = None, retry_count = 0\<rparr>
       (communications self)"
  by (simp add: start_communication_def)

lemma communications_add_message:
  "communications (add_message mid now self cid r ct tk fc tcs) =
     (case get_communication self cid of
        None \<Rightarrow> communications self
      | Some c \<Rightarrow>
          AList.update cid
            (record_message \<lparr>msg_id = mid, timestamp = now, role = r, content = ct,
               tokens = tk, function_call = fc, tool_calls = tcs\<rparr> c) (communications self))"
  by (simp add: add_message_def get_communication_def split: option.splits)

lemma complete_communication_missing:
  "get_communication self cid = None \<Longrightarrow>
   complete_communication now self cid fr rt cs em et ec rc = self"
  by (simp add: complete_communication_def get_communication_def)

lemma complete_communication_empty:
  "get_communication self cid = Some c \<Longrightarrow> messages c = [] \<Longrightarrow>
   complete_communication now self cid fr rt cs em et ec rc =
     self\<lparr>communications := AList.delete cid (communications self)\<rparr>"
  by (simp add: complete_communication_def get_communication_def)

lemma communications_complete_nonempty:
  "get_communication self cid = Some c \<Longrightarrow> messages c \<noteq> [] \<Longrightarrow>
   communications (complete_communication now self cid fr rt cs em et ec rc) =
     AList.update cid
       (c\<lparr>session_end := Some now, final_response := Some fr, response_time_ms := rt,
          confidence_score := cs, error_message := em, error_type := et,
          error_code := ec, retry_count := rc, cost_estimate := calculate_cost c\<rparr>)
       (communications self)"
proof -
  have "calculate_cost (c\<lparr>session_end := Some now, final_response := Some fr, response_time_ms := rt,
                  confidence_score := cs, error_message := em, error_type := et,
                  error_code := ec, retry_count := rc\<rparr>) = calculate_cost c"
    by (rule calculate_cost_cong) simp_all
  then show "get_communication self cid = Some c \<Longrightarrow> messages c \<noteq> [] \<Longrightarrow> ?thesis"
    by (simp add: get_communication_def complete_communication_def Let_def)
qed

lemma active_sessions_complete_nonempty:
  "get_communication self cid = Some c \<Longrightarrow> messages c \<noteq> [] \<Longrightarrow>
   active_sessions (complete_communication now self cid fr rt cs em et ec rc) =
     AList.delete (agent_id c) (active_sessions self)"
proof -
  have "map_of (active_sessions self) (agent_id c) = None \<Longrightarrow>
        AList.delete (agent_id c) (active_sessions self) = active_sessions self"
    by (simp add: map_of_eq_None_iff)
  then show "get_communication self cid = Some c \<Longrightarrow> messages c \<noteq> [] \<Longrightarrow> ?thesis"
    by (auto simp: get_communication_def complete_communication_def Let_def)
qed

lemma comm_inv_record_message:
  "total_tokens c = total_input_tokens c + total_output_tokens c \<and>
     (session_end c = None \<longrightarrow> cost_estimate c = 0) \<Longrightarrow>
   total_tokens (record_message m c) =
     total_input_tokens (record_message m c) + total_output_tokens (record_message m c) \<and>
   (session_end (record_message m c) = None \<longrightarrow> cost_estimate (record_message m c) = 0)"
  using record_message_total [of c m]
  by (simp add: record_message_session_end record_message_cost)

lemma step_invariant:
  assumes "\<forall>(k, c) \<in> set (communications self).
             total_tokens c = total_input_tokens c + total_output_tokens c \<and>
             (session_end c = None \<longrightarrow> cost_estimate c = 0)"
  shows "\<forall>(k, c) \<in> set (communications (step self call)).
             total_tokens c = total_input_tokens c + total_output_tokens c \<and>
             (session_end c = None \<longrightarrow> cost_estimate c = 0)"
proof (cases call)
  case (Start cid now aid an asp fw pr md pid pn sc sp)
  show ?thesis
    unfolding Start step.simps communications_start
    using assms by (auto dest!: set_update_cases)
next
  case (AddMessage mid now cid r ct tk fc tcs)
  show ?thesis
  proof (cases "get_communication self cid")
    case None
    then show ?thesis
      unfolding AddMessage step.simps communications_add_message using assms by simp
  next
    case (Some c)
    then have "(cid, c) \<in> set (communications self)"
      by (simp add: get_communication_def map_of_SomeD)
    with assms have "total_tokens c = total_input_tokens c + total_output_tokens c \<and>
             (session_end c = None \<longrightarrow> cost_estimate c = 0)"
      by auto
    from comm_inv_record_message [OF this] show ?thesis
      unfolding AddMessage step.simps communications_add_message Some option.case
      using assms by (auto dest!: set_update_cases)
  qed
next
  case (Complete now cid fr rt cs em et ec rc)
  show ?thesis
  proof (cases "get_communication self cid")
    case None
    then show ?thesis
      unfolding Complete step.simps using assms by (simp add: complete_communication_missing)
  next
    case (Some c)
    then have in_store: "(cid, c) \<in> set (communications self)"
      by (simp add: get_communication_def map_of_SomeD)
    show ?thesis
    proof (cases "messages c = []")
      case True
      show ?thesis
        unfolding Complete step.simps complete_communication_empty [OF Some True]
        using assms set_delete_subset [of cid "communications self"] by auto
    next
      case False
      from in_store assms
      have "total_tokens c = total_input_tokens c + total_output_tokens c" by auto
      then show ?thesis
        unfolding Complete step.simps communications_complete_nonempty [OF Some False]
        using assms by (auto dest!: set_update_cases)
    qed
  qed
qed

text \<open>
  Claim C4. In every state the tracker reaches from its construction by calls of its operations,
  every stored record has \<open>total_tokens = total_input_tokens + total_output_tokens\<close>, and every
  stored record whose \<open>session_end\<close> is unset has \<open>cost_estimate = 0\<close>.
\<close>

theorem tokens_and_cost_invariant:
  "(k, c) \<in> set (communications (run (init url) calls)) \<Longrightarrow>
   total_tokens c = total_input_tokens c + total_output_tokens c \<and>
   (session_end c = None \<longrightarrow> cost_estimate c = 0)"
proof -
  have "\<forall>(k, c) \<in> set (communications (run (init url) calls)).
             total_tokens c = total_input_tokens c + total_output_tokens c \<and>
             (session_end c = None \<longrightarrow> cost_estimate c = 0)"
  proof (induction calls rule: rev_induct)
    case Nil
    show ?case by (simp add: run_Nil init_def)
  next
    case (snoc call calls)
    from step_invariant [OF snoc.IH, of call] show ?case
      by (simp add: run_append run_Cons run_Nil)
  qed
  then show "(k, c) \<in> set (communications (run (init url) calls)) \<Longrightarrow> ?thesis"
    by auto
qed

lemmas eval_record_message =
  record_message_def track_calls_def update_token_counts_def Let_def

theorem tokens_and_cost_invariant_witness:
  "\<exists>c. get_communication (run (init None) example_calls) ''c1'' = Some c \<and>
       session_end c = None \<and> total_tokens c = 80 \<and> cost_estimate c = 0"
proof -
  have "\<exists>c. get_communication (run (init None) example_calls) ''c1'' = Some c \<and>
       session_end c = None \<and> total_input_tokens c = 50 \<and> total_output_tokens c = 30"
    by (simp add: example_calls_def run_def get_start_communication get_add_message
        eval_record_message)
  then obtain c where c: "get_communication (run (init None) example_calls) ''c1'' = Some c"
    "session_end c = None" "total_input_tokens c = 50" "total_output_tokens c = 30"
    by blast
  from c(1) have "(''c1'', c) \<in> set (communications (run (init None) example_calls))"
    by (simp add: get_communication_def map_of_SomeD)
  from tokens_and_cost_invariant [OF this] c show ?thesis
    by simp
qed

lemma active_sessions_start:
  "active_sessions (start_communication cid now self aid an asp fw pr md pid pn sc sp) =
     AList.update aid cid (active_sessions self)"
  by (simp add: start_communication_def)

lemma active_sessions_add_message:
  "active_sessions (add_message mid now self cid r ct tk fc tcs) = active_sessions self"
  by (simp add: add_message_def split: option.splits)

lemma executor_start:
  "executor (start_communication cid now self aid an asp fw pr md pid pn sc sp) = executor self"
  by (simp add: start_communication_def)

lemma webhook_url_start:
  "webhook_url (start_communication cid now self aid an asp fw pr md pid pn sc sp) = webhook_url self"
  by (simp add: start_communication_def)

lemma executor_add_message:
  "executor (add_message mid now self cid r ct tk fc tcs) = executor self"
  by (simp add: add_message_def split: option.splits)

lemma webhook_url_add_message:
  "webhook_url (add_message mid now self cid r ct tk fc tcs) = webhook_url self"
  by (simp add: add_message_def split: option.splits)

lemma record_message_comm_id: "comm_id (record_message m c) = comm_id c"
  by (simp add: eval_record_message split: option.splits)

lemma record_message_agent_id: "agent_id (record_message m c) = agent_id c"
  by (simp add: eval_record_message split: option.splits)

lemma step_store_ok: "store_ok self \<Longrightarrow> store_ok (step self call)"
proof (cases call)
  case (Start cid now aid an asp fw pr md pid pn sc sp)
  assume "store_ok self"
  then show ?thesis
    unfolding store_ok_def Start step.simps communications_start
    by (auto dest!: set_update_cases)
next
  case (AddMessage mid now cid r ct tk fc tcs)
  assume ok: "store_ok self"
  show ?thesis
  proof (cases "get_communication self cid")
    case None
    with ok show ?thesis
      unfolding store_ok_def AddMessage step.simps communications_add_message by simp
  next
    case (Some c)
    then have "(cid, c) \<in> set (communications self)"
      by (simp add: get_communication_def map_of_SomeD)
    with ok have "comm_id c = cid"
      by (auto simp: store_ok_def)
    with ok show ?thesis
      unfolding store_ok_def AddMessage step.simps communications_add_message Some option.case
      by (auto dest!: set_update_cases simp: record_message_comm_id)
  qed
next
  case (Complete now cid fr rt cs em et ec rc)
  assume ok: "store_ok self"
  show ?thesis
  proof (cases "get_communication self cid")
    case None
    with ok show ?thesis
      unfolding Complete step.simps by (simp add: complete_communication_missing)
  next
    case (Some c)
    then have "(cid, c) \<in> set (communications self)"
      by (simp add: get_communication_def map_of_SomeD)
    with ok have id: "comm_id c = cid"
      by (auto simp: store_ok_def)
    show ?thesis
    proof (cases "messages c = []")
      case True
      show ?thesis
        unfolding store_ok_def Complete step.simps complete_communication_empty [OF Some True]
        using ok set_delete_subset [of cid "communications self"] by (auto simp: store_ok_def)
    next
      case False
      show ?thesis
        unfolding store_ok_def Complete step.simps communications_complete_nonempty [OF Some False]
        using ok id by (auto dest!: set_update_cases simp: store_ok_def)
    qed
  qed
qed

lemma store_ok_run: "store_ok (run (init url) calls)"
proof (induction calls rule: rev_induct)
  case Nil
  show ?case by (simp add: run_Nil init_def store_ok_def)
next
  case (snoc call calls)
  from step_store_ok [OF snoc.IH, of call] show ?case
    by (simp add: run_append run_Cons run_Nil)
qed

subsection \<open>Completion of a session\<close>

text \<open>
  Claim C2. Completing a stored record that has no messages does nothing but delete it from the
  store: no field of any record is computed or set, no webhook job is submitted, and looking the
  identifier up afterwards finds nothing. The list assembled for the export holds the remaining
  records only (none of them has this identifier, records being stored under their own); the
  export itself returns the text \<open>[]\<close> when no other record is stored and raises \<open>TypeError\<close>
  otherwise, so nothing it returns shows the record. The statistics are those of the store
  without the record.
\<close>

theorem complete_empty_deletes:
  assumes "get_communication self cid = Some c" and "messages c = []"
  shows
    "complete_communication now self cid fr rt cs em et ec rc =
       self\<lparr>communications := AList.delete cid (communications self)\<rparr> \<and>
     executor (complete_communication now self cid fr rt cs em et ec rc) = executor self \<and>
     get_communication (complete_communication now self cid fr rt cs em et ec rc) cid = None \<and>
     export_data (complete_communication now self cid fr rt cs em et ec rc) =
       map snd (filter (\<lambda>(k, x). k \<noteq> cid) (communications self)) \<and>
     (store_ok self \<longrightarrow>
        (\<forall>x \<in> set (export_data (complete_communication now self cid fr rt cs em et ec rc)).
           comm_id x \<noteq> cid)) \<and>
     export_communications (complete_communication now self cid fr rt cs em et ec rc) ''json'' =
       (if filter (\<lambda>(k, x). k \<noteq> cid) (communications self) = [] then Inr ''[]''
        else Inl (TypeError ''Object of type AgentFramework is not JSON serializable'')) \<and>
     get_communication_stats (complete_communication now self cid fr rt cs em et ec rc) =
       get_communication_stats
         (self\<lparr>communications := filter (\<lambda>(k, x). k \<noteq> cid) (communications self)\<rparr>)"
proof -
  have del: "AList.delete cid (communications self) =
               filter (\<lambda>(k, x). k \<noteq> cid) (communications self)"
    by (simp add: AList.delete_eq case_prod_beta' eq_commute)
  have eq: "complete_communication now self cid fr rt cs em et ec rc =
       self\<lparr>communications := AList.delete cid (communications self)\<rparr>"
    by (rule complete_communication_empty [OF assms])
  have none: "get_communication (self\<lparr>communications := AList.delete cid (communications self)\<rparr>)
                cid = None"
    by (simp add: get_communication_def delete_conv')
  have data: "export_data (self\<lparr>communications := AList.delete cid (communications self)\<rparr>) =
             map snd (filter (\<lambda>(k, x). k \<noteq> cid) (communications self))"
    by (simp add: export_data_def del)
  have ids: "store_ok self \<longrightarrow>
        (\<forall>x \<in> set (export_data (self\<lparr>communications := AList.delete cid (communications self)\<rparr>)).
           comm_id x \<noteq> cid)"
    unfolding data by (auto simp: store_ok_def)
  have exp: "export_communications
               (self\<lparr>communications := AList.delete cid (communications self)\<rparr>) ''json'' =
             (if filter (\<lambda>(k, x). k \<noteq> cid) (communications self) = [] then Inr ''[]''
              else Inl (TypeError ''Object of type AgentFramework is not JSON serializable''))"
    unfolding export_communications_def data
    by (simp add: json_dumps_def split: list.splits)
  have stats: "get_communication_stats
                 (self\<lparr>communications := AList.delete cid (communications self)\<rparr>) =
               get_communication_stats
                 (self\<lparr>communications := filter (\<lambda>(k, x). k \<noteq> cid) (communications self)\<rparr>)"
    by (simp only: del)
  show ?thesis
    unfolding eq using none data ids exp stats by simp
qed

theorem complete_empty_deletes_witness:
  "get_communication
     (complete_communication 5
        (run (init (Some ''http://hook''))
           [Start ''c1'' 0 ''a1'' ''Dr. X'' ''cardiology'' AUTOGEN OPENAI ''gpt-4'' None None
              ''assessment'' None,
            Start ''c2'' 2 ''a2'' ''Dr. Y'' ''oncology'' CREWAI OPENAI ''gpt-4'' None None
              ''assessment'' None])
        ''c1'' ''Error: boom'' 10 None (Some ''boom'') (Some ''unknown_error'') None 0) ''c1'' = None \<and>
   executor
     (complete_communication 5
        (run (init (Some ''http://hook''))
           [Start ''c1'' 0 ''a1'' ''Dr. X'' ''cardiology'' AUTOGEN OPENAI ''gpt-4'' None None
              ''assessment'' None,
            Start ''c2'' 2 ''a2'' ''Dr. Y'' ''oncology'' CREWAI OPENAI ''gpt-4'' None None
              ''assessment'' None])
        ''c1'' ''Error: boom'' 10 None (Some ''boom'') (Some ''unknown_error'') None 0) = [] \<and>
   map comm_id
     (export_data
        (complete_communication 5
           (run (init (Some ''http://hook''))
              [Start ''c1'' 0 ''a1'' ''Dr. X'' ''cardiology'' AUTOGEN OPENAI ''gpt-4'' None None
                 ''assessment'' None,
               Start ''c2'' 2 ''a2'' ''Dr. Y'' ''oncology'' CREWAI OPENAI ''gpt-4'' None None
                 ''assessment'' None])
           ''c1'' ''Error: boom'' 10 None (Some ''boom'') (Some ''unknown_error'') None 0)) =
     [''c2''] \<and>
   export_communications
     (complete_communication 5
        (run (init (Some ''http://hook''))
           [Start ''c1'' 0 ''a1'' ''Dr. X'' ''cardiology'' AUTOGEN OPENAI ''gpt-4'' None None
              ''assessment'' None,
            Start ''c2'' 2 ''a2'' ''Dr. Y'' ''oncology'' CREWAI OPENAI ''gpt-4'' None None
              ''assessment'' None])
        ''c1'' ''Error: boom'' 10 None (Some ''boom'') (Some ''unknown_error'') None 0) ''json'' =
     Inl (TypeError ''Object of type AgentFramework is not JSON serializable'') \<and>
   export_communications
     (complete_communication 5
        (run (init (Some ''http://hook''))
           [Start ''c1'' 0 ''a1'' ''Dr. X'' ''cardiology'' AUTOGEN OPENAI ''gpt-4'' None None
              ''assessment'' None])
        ''c1'' ''Error: boom'' 10 None (Some ''boom'') (Some ''unknown_error'') None 0) ''json'' =
     Inr ''[]'' \<and>
   get_communication_stats
     (complete_communication 5
        (run (init (Some ''http://hook''))
           [Start ''c1'' 0 ''a1'' ''Dr. X'' ''cardiology'' AUTOGEN OPENAI ''gpt-4'' None None
              ''assessment'' None,
            Start ''c2'' 2 ''a2'' ''Dr. Y'' ''oncology'' CREWAI OPENAI ''gpt-4'' None None
              ''assessment'' None])
        ''c1'' ''Error: boom'' 10 None (Some ''boom'') (Some ''unknown_error'') None 0) =
     Inr (Minimal 0 0)"
proof -
  let ?self = "run (init (Some ''http://hook''))
           [Start ''c1'' 0 ''a1'' ''Dr. X'' ''cardiology'' AUTOGEN OPENAI ''gpt-4'' None None
              ''assessment'' None,
            Start ''c2'' 2 ''a2'' ''Dr. Y'' ''oncology'' CREWAI OPENAI ''gpt-4'' None None
              ''assessment'' None]"
  let ?done = "complete_communication 5 ?self ''c1'' ''Error: boom'' 10 None (Some ''boom'')
       (Some ''unknown_error'') None 0"
  let ?single = "run (init (Some ''http://hook''))
           [Start ''c1'' 0 ''a1'' ''Dr. X'' ''cardiology'' AUTOGEN OPENAI ''gpt-4'' None None
              ''assessment'' None]"
  obtain c where c: "get_communication ?self ''c1'' = Some c" and m: "messages c = []"
    by (simp add: run_def get_start_communication)
  note th = complete_empty_deletes
      [OF c m, where now = 5 and fr = "''Error: boom''" and rt = 10 and cs = None
         and em = "Some ''boom''" and et = "Some ''unknown_error''" and ec = None and rc = 0]
  have ok: "store_ok ?self"
    by (rule store_ok_run)
  have "\<exists>c2. filter (\<lambda>(k, x). k \<noteq> ''c1'') (communications ?self) = [(''c2'', c2)] \<and>
                   session_end c2 = None"
    by (simp add: run_def communications_start init_def)
  then obtain c2 where rest: "filter (\<lambda>(k, x). k \<noteq> ''c1'') (communications ?self) = [(''c2'', c2)]"
    and open2: "session_end c2 = None"
    by blast
  have "executor ?self = []"
    by (simp add: run_def executor_start init_def)
  with th [THEN conjunct2, THEN conjunct1] have 1: "executor ?done = []"
    by simp
  from th [THEN conjunct2, THEN conjunct2, THEN conjunct2, THEN conjunct1]
  have data: "export_data ?done = [c2]"
    unfolding rest by simp
  have "(''c2'', c2) \<in> set (filter (\<lambda>(k, x). k \<noteq> ''c1'') (communications ?self))"
    unfolding rest by simp
  then have "(''c2'', c2) \<in> set (communications ?self)"
    by simp
  with ok have "comm_id c2 = ''c2''"
    by (auto simp: store_ok_def)
  with data have 2: "map comm_id (export_data ?done) = [''c2'']"
    by simp
  from th [THEN conjunct2, THEN conjunct2, THEN conjunct2, THEN conjunct2, THEN conjunct2,
           THEN conjunct1]
  have 3: "export_communications ?done ''json'' =
             Inl (TypeError ''Object of type AgentFramework is not JSON serializable'')"
    unfolding rest by simp
  from th [THEN conjunct2, THEN conjunct2, THEN conjunct2, THEN conjunct2, THEN conjunct2,
           THEN conjunct2]
  have 4: "get_communication_stats ?done = Inr (Minimal 0 0)"
    unfolding rest by (simp add: get_communication_stats_def open2)
  obtain c1 where c1: "get_communication ?single ''c1'' = Some c1" and m1: "messages c1 = []"
    by (simp add: run_def get_start_communication)
  have "filter (\<lambda>(k, x). k \<noteq> ''c1'') (communications ?single) = []"
    by (simp add: run_def communications_start init_def)
  with complete_empty_deletes
      [OF c1 m1, where now = 5 and fr = "''Error: boom''" and rt = 10 and cs = None
         and em = "Some ''boom''" and et = "Some ''unknown_error''" and ec = None and rc = 0,
       THEN conjunct2, THEN conjunct2, THEN conjunct2, THEN conjunct2, THEN conjunct2,
       THEN conjunct1]
  have 5: "export_communications
     (complete_communication 5 ?single ''c1'' ''Error: boom'' 10 None (Some ''boom'')
        (Some ''unknown_error'') None 0) ''json'' = Inr ''[]''"
    by simp
  from th [THEN conjunct2, THEN conjunct2, THEN conjunct1] 1 2 3 4 5 show ?thesis
    by blast
qed

text \<open>
  Claim C3, as the code has it. Completing a stored record that has messages removes the entry of
  the record's agent from the active-session index, whichever session the entry points to, and
  leaves the entries of the other agents as they are.
\<close>

theorem complete_removes_agent_entry:
  assumes "get_communication self cid = Some c" and "messages c \<noteq> []"
  shows "active_sessions (complete_communication now self cid fr rt cs em et ec rc) =
           AList.delete (agent_id c) (active_sessions self) \<and>
         map_of (active_sessions (complete_communication now self cid fr rt cs em et ec rc))
           (agent_id c) = None"
  by (simp add: active_sessions_complete_nonempty [OF assms] delete_conv')

theorem complete_removes_agent_entry_witness:
  "active_sessions
     (complete_communication 5
        (run (init None)
           [Start ''c1'' 0 ''a1'' ''Dr. X'' ''cardiology'' AUTOGEN OPENAI ''gpt-4'' None None
              ''assessment'' None,
            AddMessage ''m1'' 2 ''c1'' ''user'' ''assess patient'' (Some 50) None None,
            Start ''c2'' 3 ''a1'' ''Dr. X'' ''cardiology'' AUTOGEN OPENAI ''gpt-4'' None None
              ''assessment'' None,
            Start ''c3'' 4 ''a2'' ''Dr. Y'' ''oncology'' CREWAI OPENAI ''gpt-4'' None None
              ''assessment'' None])
        ''c1'' ''done'' 1200 None None None None 0) = [(''a2'', ''c3'')]"
proof -
  let ?self = "run (init None)
           [Start ''c1'' 0 ''a1'' ''Dr. X'' ''cardiology'' AUTOGEN OPENAI ''gpt-4'' None None
              ''assessment'' None,
            AddMessage ''m1'' 2 ''c1'' ''user'' ''assess patient'' (Some 50) None None,
            Start ''c2'' 3 ''a1'' ''Dr. X'' ''cardiology'' AUTOGEN OPENAI ''gpt-4'' None None
              ''assessment'' None,
            Start ''c3'' 4 ''a2'' ''Dr. Y'' ''oncology'' CREWAI OPENAI ''gpt-4'' None None
              ''assessment'' None]"
  have idx: "active_sessions ?self = [(''a1'', ''c2''), (''a2'', ''c3'')]"
    by (simp add: run_def active_sessions_start active_sessions_add_message init_def)
  obtain c where c: "get_communication ?self ''c1'' = Some c" and m: "messages c \<noteq> []"
    and a: "agent_id c = ''a1''"
    by (simp add: run_def get_start_communication get_add_message record_message_messages
        record_message_agent_id)
  from complete_removes_agent_entry [OF c m, of 5 "''done''" 1200 None None None None 0]
  show ?thesis
    by (simp add: a idx)
qed

text \<open>
  The entry is removed also when a newer session of the same agent has overwritten it: after
  \<open>a1\<close> starts \<open>c1\<close> and then \<open>c2\<close>, the index maps \<open>a1\<close> to \<open>c2\<close>, and completing \<open>c1\<close> removes
  that entry.
\<close>

theorem complete_removes_newer_entry_counterexample:
  "map_of (active_sessions
     (run (init None)
        [Start ''c1'' 0 ''a1'' ''Dr. X'' ''cardiology'' AUTOGEN OPENAI ''gpt-4'' None None
           ''assessment'' None,
         AddMessage ''m1'' 2 ''c1'' ''user'' ''assess patient'' (Some 50) None None,
         Start ''c2'' 3 ''a1'' ''Dr. X'' ''cardiology'' AUTOGEN OPENAI ''gpt-4'' None None
           ''assessment'' None])) ''a1'' = Some ''c2'' \<and>
   map_of (active_sessions
     (run (init None)
        [Start ''c1'' 0 ''a1'' ''Dr. X'' ''cardiology'' AUTOGEN OPENAI ''gpt-4'' None None
           ''assessment'' None,
         AddMessage ''m1'' 2 ''c1'' ''user'' ''assess patient'' (Some 50) None None,
         Start ''c2'' 3 ''a1'' ''Dr. X'' ''cardiology'' AUTOGEN OPENAI ''gpt-4'' None None
           ''assessment'' None,
         Complete 5 ''c1'' ''done'' 1200 None None None None 0])) ''a1'' = None"
proof -
  let ?self = "run (init None)
        [Start ''c1'' 0 ''a1'' ''Dr. X'' ''cardiology'' AUTOGEN OPENAI ''gpt-4'' None None
           ''assessment'' None,
         AddMessage ''m1'' 2 ''c1'' ''user'' ''assess patient'' (Some 50) None None,
         Start ''c2'' 3 ''a1'' ''Dr. X'' ''cardiology'' AUTOGEN OPENAI ''gpt-4'' None None
           ''assessment'' None]"
  have idx: "active_sessions ?self = [(''a1'', ''c2'')]"
    by (simp add: run_def active_sessions_start active_sessions_add_message init_def)
  obtain c where c: "get_communication ?self ''c1'' = Some c" and m: "messages c \<noteq> []"
    and a: "agent_id c = ''a1''"
    by (simp add: run_def get_start_communication get_add_message record_message_messages
        record_message_agent_id)
  have "active_sessions (complete_communication 5 ?self ''c1'' ''done'' 1200 None None None None 0) = []"
    by (simp add: active_sessions_complete_nonempty [OF c m] a idx)
  with idx show ?thesis
    by (simp add: run_def)
qed

subsection \<open>The active-session index and the statistics\<close>

lemma step_keeps_entry:
  assumes "map_of (active_sessions self) aid \<noteq> None" and "\<not> finalizes self call aid"
  shows "map_of (active_sessions (step self call)) aid \<noteq> None"
proof (cases call)
  case (Start cid now aid' an asp fw pr md pid pn sc sp)
  with assms(1) show ?thesis
    by (simp add: active_sessions_start update_conv')
next
  case (AddMessage mid now cid r ct tk fc tcs)
  with assms(1) show ?thesis
    by (simp add: active_sessions_add_message)
next
  case (Complete now cid fr rt cs em et ec rc)
  show ?thesis
  proof (cases "get_communication self cid")
    case None
    with assms(1) show ?thesis
      unfolding Complete step.simps by (simp add: complete_communication_missing)
  next
    case (Some c)
    show ?thesis
    proof (cases "messages c = []")
      case True
      with assms(1) show ?thesis
        unfolding Complete step.simps complete_communication_empty [OF Some True] by simp
    next
      case False
      with assms(2) Some have "agent_id c \<noteq> aid"
        by (simp add: Complete)
      with assms(1) show ?thesis
        unfolding Complete step.simps
        by (simp add: active_sessions_complete_nonempty [OF Some False] delete_conv')
    qed
  qed
qed

lemma run_keeps_entry:
  "map_of (active_sessions self) aid \<noteq> None \<Longrightarrow> no_finalization self aid calls \<Longrightarrow>
   map_of (active_sessions (run self calls)) aid \<noteq> None"
proof (induction calls arbitrary: self)
  case Nil
  then show ?case by (simp add: run_Nil)
next
  case (Cons call calls)
  from Cons.prems have "map_of (active_sessions (step self call)) aid \<noteq> None"
    by (simp add: step_keeps_entry)
  with Cons.prems Cons.IH [of "step self call"] show ?case
    by (simp add: run_Cons)
qed

lemma stats_cases:
  "get_communication_stats self =
     (if filter (\<lambda>c. session_end c \<noteq> None) (map snd (communications self)) = []
      then Inr (Minimal 0 0)
      else Inr (Full (length (communications self))
             (length (filter (\<lambda>c. session_end c \<noteq> None) (map snd (communications self))))
             (length (active_sessions self))
             (length (filter (\<lambda>c. truthy_str (error_message c))
                (filter (\<lambda>c. session_end c \<noteq> None) (map snd (communications self)))))
             (sum_list (map total_tokens
                (filter (\<lambda>c. session_end c \<noteq> None) (map snd (communications self)))))
             (sum_list (map cost_estimate
                (filter (\<lambda>c. session_end c \<noteq> None) (map snd (communications self)))))
             (py_int (real_of_int (sum_list (map response_time_ms
                (filter (\<lambda>c. session_end c \<noteq> None) (map snd (communications self))))) /
                real (length (filter (\<lambda>c. session_end c \<noteq> None) (map snd (communications self))))))
             (map (framework_entry
                (filter (\<lambda>c. session_end c \<noteq> None) (map snd (communications self))))
                [AUTOGEN, CREWAI, CUSTOM])
             (foldl error_stats_step []
                (filter (\<lambda>c. truthy_str (error_message c))
                   (filter (\<lambda>c. session_end c \<noteq> None) (map snd (communications self)))))))"
  by (auto simp: get_communication_stats_def py_truediv_def Let_def filter_map)

lemma get_complete_other:
  "k \<noteq> cid \<Longrightarrow>
   get_communication (complete_communication now self cid fr rt cs em et ec rc) k =
     get_communication self k"
proof (cases "get_communication self cid")
  case None
  then show ?thesis by (simp add: complete_communication_missing)
next
  case (Some c)
  assume k: "k \<noteq> cid"
  show ?thesis
  proof (cases "messages c = []")
    case True
    with k show ?thesis
      by (simp add: complete_communication_empty [OF Some True] get_communication_def)
  next
    case False
    with k show ?thesis
      by (simp add: get_complete_communication_nonempty [OF Some False])
  qed
qed

lemma stats_full_if_completed:
  assumes "get_communication self cid = Some c" and "session_end c \<noteq> None"
  shows "\<exists>s. get_communication_stats self = Inr s \<and> s \<noteq> Minimal 0 0"
proof -
  from assms(1) have "(cid, c) \<in> set (communications self)"
    by (simp add: get_communication_def map_of_SomeD)
  then have "c \<in> set (map snd (communications self))"
    by force
  with assms(2) have "filter (\<lambda>c. session_end c \<noteq> None) (map snd (communications self)) \<noteq> []"
    unfolding filter_empty_conv by blast
  then show ?thesis
    by (simp add: stats_cases)
qed

lemma length_update_present:
  "map_of al k = Some v' \<Longrightarrow> length (AList.update k v al) = length al"
  by (induction al) auto

text \<open>
  Claim C10. Completing a stored record that has no messages leaves the active-session index as
  it is, the entry of the record's agent included. The \<open>active\<close> figure of the statistics is the
  size of the index, so the agent is still counted; and its entry stays through every sequence
  of calls none of which completes a record with messages of that agent, while such a
  completion removes it.
\<close>

theorem empty_completion_keeps_index_entry:
  "(get_communication self cid = Some c \<and> messages c = [] \<longrightarrow>
      active_sessions (complete_communication now self cid fr rt cs em et ec rc) =
        active_sessions self) \<and>
   (get_communication_stats self = Inr s \<and> s \<noteq> Minimal 0 0 \<longrightarrow>
      st_active s = length (active_sessions self)) \<and>
   (map_of (active_sessions self) aid \<noteq> None \<and> no_finalization self aid calls \<longrightarrow>
      map_of (active_sessions (run self calls)) aid \<noteq> None) \<and>
   (get_communication self cid = Some c \<and> messages c \<noteq> [] \<longrightarrow>
      map_of (active_sessions (complete_communication now self cid fr rt cs em et ec rc))
        (agent_id c) = None)"
proof (intro conjI impI)
  assume "get_communication self cid = Some c \<and> messages c = []"
  then show "active_sessions (complete_communication now self cid fr rt cs em et ec rc) =
        active_sessions self"
    by (simp add: complete_communication_empty)
next
  assume "get_communication_stats self = Inr s \<and> s \<noteq> Minimal 0 0"
  then show "st_active s = length (active_sessions self)"
    by (auto simp: stats_cases split: if_splits)
next
  assume "map_of (active_sessions self) aid \<noteq> None \<and> no_finalization self aid calls"
  then show "map_of (active_sessions (run self calls)) aid \<noteq> None"
    by (simp add: run_keeps_entry)
next
  assume "get_communication self cid = Some c \<and> messages c \<noteq> []"
  then show "map_of (active_sessions (complete_communication now self cid fr rt cs em et ec rc))
        (agent_id c) = None"
    by (simp add: active_sessions_complete_nonempty delete_conv')
qed

theorem empty_completion_keeps_index_entry_witness:
  "active_sessions
     (complete_communication 4
        (run (init None)
           [Start ''c1'' 0 ''a1'' ''Dr. X'' ''cardiology'' AUTOGEN OPENAI ''gpt-4'' None None
              ''assessment'' None,
            Start ''c2'' 2 ''a2'' ''Dr. Y'' ''oncology'' CREWAI OPENAI ''gpt-4'' None None
              ''assessment'' None,
            AddMessage ''m1'' 3 ''c2'' ''user'' ''hi'' (Some 5) None None])
        ''c1'' ''Error: boom'' 10 None (Some ''boom'') (Some ''unknown_error'') None 0) =
     [(''a1'', ''c1''), (''a2'', ''c2'')] \<and>
   map_of (active_sessions
     (run
        (complete_communication 4
           (run (init None)
              [Start ''c1'' 0 ''a1'' ''Dr. X'' ''cardiology'' AUTOGEN OPENAI ''gpt-4'' None None
                 ''assessment'' None,
               Start ''c2'' 2 ''a2'' ''Dr. Y'' ''oncology'' CREWAI OPENAI ''gpt-4'' None None
                 ''assessment'' None,
               AddMessage ''m1'' 3 ''c2'' ''user'' ''hi'' (Some 5) None None])
           ''c1'' ''Error: boom'' 10 None (Some ''boom'') (Some ''unknown_error'') None 0)
        [Complete 5 ''c2'' ''done'' 1200 None None None None 0])) ''a1'' = Some ''c1'' \<and>
   (\<exists>s. get_communication_stats
      (run
        (complete_communication 4
           (run (init None)
              [Start ''c1'' 0 ''a1'' ''Dr. X'' ''cardiology'' AUTOGEN OPENAI ''gpt-4'' None None
                 ''assessment'' None,
               Start ''c2'' 2 ''a2'' ''Dr. Y'' ''oncology'' CREWAI OPENAI ''gpt-4'' None None
                 ''assessment'' None,
               AddMessage ''m1'' 3 ''c2'' ''user'' ''hi'' (Some 5) None None])
           ''c1'' ''Error: boom'' 10 None (Some ''boom'') (Some ''unknown_error'') None 0)
        [Complete 5 ''c2'' ''done'' 1200 None None None None 0]) = Inr s \<and>
      st_active s = 1)"
proof -
  let ?s0 = "run (init None)
           [Start ''c1'' 0 ''a1'' ''Dr. X'' ''cardiology'' AUTOGEN OPENAI ''gpt-4'' None None
              ''assessment'' None,
            Start ''c2'' 2 ''a2'' ''Dr. Y'' ''oncology'' CREWAI OPENAI ''gpt-4'' None None
              ''assessment'' None,
            AddMessage ''m1'' 3 ''c2'' ''user'' ''hi'' (Some 5) None None]"
  let ?s1 = "complete_communication 4 ?s0 ''c1'' ''Error: boom'' 10 None (Some ''boom'')
               (Some ''unknown_error'') None 0"
  let ?s2 = "run ?s1 [Complete 5 ''c2'' ''done'' 1200 None None None None 0]"
  have idx0: "active_sessions ?s0 = [(''a1'', ''c1''), (''a2'', ''c2'')]"
    by (simp add: run_def active_sessions_start active_sessions_add_message init_def)
  obtain c where c: "get_communication ?s0 ''c1'' = Some c" and m: "messages c = []"
    by (simp add: run_def get_start_communication get_add_message)
  from c m empty_completion_keeps_index_entry
         [where self = ?s0 and cid = "''c1''" and c = c, THEN conjunct1]
  have idx1: "active_sessions ?s1 = [(''a1'', ''c1''), (''a2'', ''c2'')]"
    by (simp add: idx0)
  obtain c2 where c2: "get_communication ?s1 ''c2'' = Some c2" and m2: "messages c2 \<noteq> []"
    and a2: "agent_id c2 = ''a2''"
    by (simp add: get_complete_other run_def get_start_communication get_add_message
        record_message_messages record_message_agent_id)
  have nf: "no_finalization ?s1 ''a1'' [Complete 5 ''c2'' ''done'' 1200 None None None None 0]"
    by (simp add: c2 a2)
  have s2: "?s2 = complete_communication 5 ?s1 ''c2'' ''done'' 1200 None None None None 0"
    by (simp add: run_def)
  have idx2: "active_sessions ?s2 = [(''a1'', ''c1'')]"
    unfolding s2 by (simp add: active_sessions_complete_nonempty [OF c2 m2] a2 idx1)
  from nf idx1 empty_completion_keeps_index_entry
         [where self = ?s1 and aid = "''a1''"
            and calls = "[Complete 5 ''c2'' ''done'' 1200 None None None None 0]",
          THEN conjunct2, THEN conjunct2, THEN conjunct1]
  have kept: "map_of (active_sessions ?s2) ''a1'' \<noteq> None"
    by simp
  have "\<exists>c'. get_communication ?s2 ''c2'' = Some c' \<and> session_end c' \<noteq> None"
    unfolding s2 by (simp add: get_complete_communication_nonempty [OF c2 m2])
  then obtain s where s: "get_communication_stats ?s2 = Inr s" "s \<noteq> Minimal 0 0"
    using stats_full_if_completed by blast
  with empty_completion_keeps_index_entry
         [where self = ?s2 and s = s, THEN conjunct2, THEN conjunct1]
  have "st_active s = 1"
    by (simp add: idx2)
  with s(1) idx1 idx2 kept show ?thesis
    by auto
qed

text \<open>
  Claim C7. \<open>get_communication_stats\<close> never raises (it divides by the number
  of completed records only when there is one). When no stored record is completed it returns
  the minimal shape with \<open>total = 0\<close> and \<open>completed = 0\<close>, however many open records are stored;
  when some record is completed it returns the full shape, whose \<open>total\<close> is the number of all
  stored records, open ones included, and whose \<open>completed\<close> is the number of completed ones.
\<close>

theorem get_communication_stats_shape:
  "(\<exists>s. get_communication_stats self = Inr s) \<and>
   (filter (\<lambda>c. session_end c \<noteq> None) (map snd (communications self)) = [] \<longrightarrow>
      get_communication_stats self = Inr (Minimal 0 0)) \<and>
   (filter (\<lambda>c. session_end c \<noteq> None) (map snd (communications self)) \<noteq> [] \<longrightarrow>
      (\<exists>s. get_communication_stats self = Inr s \<and> s \<noteq> Minimal 0 0 \<and>
           st_total s = length (communications self) \<and>
           st_completed s =
             length (filter (\<lambda>c. session_end c \<noteq> None) (map snd (communications self)))))"
  by (simp add: stats_cases)

theorem get_communication_stats_shape_witness:
  "get_communication_stats
     (start_communication ''c1'' 0 (init None) ''a1'' ''Dr. X'' ''cardiology'' AUTOGEN OPENAI
        ''gpt-4'' None None ''assessment'' None) = Inr (Minimal 0 0) \<and>
   (\<exists>s. get_communication_stats
          (run (init None) (example_calls @ [Complete 5 ''c1'' ''done'' 1200 None None None None 0]))
          = Inr s \<and> s \<noteq> Minimal 0 0 \<and> st_total s = 2)"
proof -
  let ?s0 = "start_communication ''c1'' 0 (init None) ''a1'' ''Dr. X'' ''cardiology'' AUTOGEN OPENAI
        ''gpt-4'' None None ''assessment'' None"
  let ?u = "run (init None) example_calls"
  let ?t = "run (init None) (example_calls @ [Complete 5 ''c1'' ''done'' 1200 None None None None 0])"
  have "filter (\<lambda>c. session_end c \<noteq> None) (map snd (communications ?s0)) = []"
    by (simp add: communications_start init_def)
  with get_communication_stats_shape [of ?s0, THEN conjunct2, THEN conjunct1]
  have 1: "get_communication_stats ?s0 = Inr (Minimal 0 0)"
    by blast
  obtain c where c: "get_communication ?u ''c1'' = Some c" and m: "messages c \<noteq> []"
    by (simp add: example_calls_def run_def get_start_communication get_add_message
        record_message_messages)
  have t: "?t = complete_communication 5 ?u ''c1'' ''done'' 1200 None None None None 0"
    by (simp add: run_def)
  have "get_communication ?u ''c2'' \<noteq> None"
    by (simp add: example_calls_def run_def get_start_communication get_add_message)
  have len0: "length (communications ?u) = 2"
    by (simp add: example_calls_def run_def communications_start communications_add_message
        get_start_communication get_add_message init_def)
  have len: "length (communications ?t) = 2"
    unfolding t communications_complete_nonempty [OF c m]
    using c len0 by (simp add: length_update_present get_communication_def)
  have "\<exists>c'. get_communication ?t ''c1'' = Some c' \<and> session_end c' \<noteq> None"
    unfolding t by (simp add: get_complete_communication_nonempty [OF c m])
  then obtain c' where c': "get_communication ?t ''c1'' = Some c'" "session_end c' \<noteq> None"
    by blast
  then have "(''c1'', c') \<in> set (communications ?t)"
    by (simp add: get_communication_def map_of_SomeD)
  then have "c' \<in> set (map snd (communications ?t))"
    by force
  with c'(2) have "filter (\<lambda>c. session_end c \<noteq> None) (map snd (communications ?t)) \<noteq> []"
    unfolding filter_empty_conv by blast
  with get_communication_stats_shape [of ?t, THEN conjunct2, THEN conjunct2] len
  have 2: "\<exists>s. get_communication_stats ?t = Inr s \<and> s \<noteq> Minimal 0 0 \<and> st_total s = 2"
    by auto
  from 1 2 show ?thesis by blast
qed

text \<open>
  An instance of the zero-completed case: with one open record stored and none completed, the
  minimal shape is returned, with \<open>total = 0\<close>.
\<close>

lemma stats_minimal_with_open_record:
  "get_communication_stats
     (start_communication ''c1'' 0 (init None) ''a1'' ''Dr. X'' ''cardiology'' AUTOGEN OPENAI
        ''gpt-4'' None None ''assessment'' None) = Inr (Minimal 0 0) \<and>
   length (communications
     (start_communication ''c1'' 0 (init None) ''a1'' ''Dr. X'' ''cardiology'' AUTOGEN OPENAI
        ''gpt-4'' None None ''assessment'' None)) = 1"
  by (simp add: stats_cases communications_start init_def)

subsection \<open>After completion\<close>

lemma same_session_refl: "same_session c c"
  by (simp add: same_session_def)

lemma same_session_trans: "same_session a b \<Longrightarrow> same_session b c \<Longrightarrow> same_session a c"
  by (simp add: same_session_def)

lemma same_session_record_message: "same_session c (record_message m c)"
  by (simp add: same_session_def eval_record_message split: option.splits)

lemma same_content_refl: "same_content c c"
  by (simp add: same_content_def)

lemma same_content_trans: "same_content a b \<Longrightarrow> same_content b c \<Longrightarrow> same_content a c"
  by (simp add: same_content_def)

lemma same_outcome_refl: "same_outcome c c"
  by (simp add: same_outcome_def)

lemma same_outcome_trans: "same_outcome a b \<Longrightarrow> same_outcome b c \<Longrightarrow> same_outcome a c"
  by (simp add: same_outcome_def)

lemma same_all_fields:
  "same_session c c' \<Longrightarrow> same_content c c' \<Longrightarrow> same_outcome c c' \<Longrightarrow> c' = c"
  by (simp add: same_session_def same_content_def same_outcome_def)

lemma same_outcome_record_message: "same_outcome c (record_message m c)"
  by (simp add: same_outcome_def eval_record_message split: option.splits)

lemma record_message_calls_prefix:
  "prefix (function_calls_made c) (function_calls_made (record_message m c)) \<and>
   prefix (tools_used c) (tools_used (record_message m c))"
  by (simp add: eval_record_message split: option.splits)

lemma step_other:
  "target_id call \<noteq> cid \<Longrightarrow> get_communication (step self call) cid = get_communication self cid"
  by (cases call) (auto simp: get_start_communication get_add_message get_complete_other)

lemma step_same_record:
  assumes "get_communication s cid = get_communication s' cid" and "target_id call = cid"
  shows "get_communication (step s call) cid = get_communication (step s' call) cid"
proof (cases call)
  case (Start k now aid an asp fw pr md pid pn sc sp)
  with assms(2) show ?thesis by (simp add: get_start_communication)
next
  case (AddMessage mid now k r ct tk fc tcs)
  with assms show ?thesis by (simp add: get_add_message)
next
  case (Complete now k fr rt cs em et ec rc)
  with assms(2) have k: "k = cid" by simp
  show ?thesis
  proof (cases "get_communication s cid")
    case None
    with assms(1) show ?thesis
      by (simp add: Complete k complete_communication_missing)
  next
    case (Some c)
    with assms(1) have Some': "get_communication s' cid = Some c" by simp
    show ?thesis
    proof (cases "messages c = []")
      case True
      show ?thesis
        by (simp add: Complete k complete_communication_empty [OF Some True]
            complete_communication_empty [OF Some' True] get_communication_def delete_conv')
    next
      case False
      show ?thesis
        by (simp add: Complete k get_complete_communication_nonempty [OF Some False]
            get_complete_communication_nonempty [OF Some' False])
    qed
  qed
qed

lemma run_projection:
  "get_communication s cid = get_communication s' cid \<Longrightarrow>
   get_communication (run s calls) cid =
     get_communication (run s' (filter (\<lambda>call. target_id call = cid) calls)) cid"
proof (induction calls arbitrary: s s')
  case Nil
  then show ?case by (simp add: run_Nil)
next
  case (Cons call calls)
  show ?case
  proof (cases "target_id call = cid")
    case True
    from step_same_record [OF Cons.prems True]
    have "get_communication (run (step s call) calls) cid =
            get_communication (run (step s' call) (filter (\<lambda>call. target_id call = cid) calls)) cid"
      by (rule Cons.IH)
    with True show ?thesis by (simp add: run_Cons)
  next
    case False
    with Cons.prems have "get_communication (step s call) cid = get_communication s' cid"
      by (simp add: step_other)
    from Cons.IH [OF this] False show ?thesis by (simp add: run_Cons)
  qed
qed

lemma step_frames:
  assumes c: "get_communication self cid = Some c"
    and fin: "session_end c \<noteq> None" and msgs: "messages c \<noteq> []"
    and fresh: "started_id call \<noteq> Some cid"
  shows "\<exists>c'. get_communication (step self call) cid = Some c' \<and> session_end c' \<noteq> None \<and>
              messages c' \<noteq> [] \<and> same_session c c' \<and> prefix (messages c) (messages c') \<and>
              prefix (function_calls_made c) (function_calls_made c') \<and>
              prefix (tools_used c) (tools_used c') \<and>
              (\<not> adds_message_to cid call \<longrightarrow> same_content c c') \<and>
              (\<not> completes cid call \<longrightarrow> same_outcome c c')"
proof (cases call)
  case (Start k now aid an asp fw pr md pid pn sc sp)
  with fresh have "k \<noteq> cid" by simp
  with c fin msgs show ?thesis
    by (simp add: Start get_start_communication same_session_refl same_content_refl
        same_outcome_refl)
next
  case (AddMessage mid now k r ct tk fc tcs)
  show ?thesis
  proof (cases "k = cid")
    case True
    with c fin msgs show ?thesis
      by (simp add: AddMessage get_add_message record_message_session_end
          record_message_messages same_session_record_message same_outcome_record_message
          record_message_calls_prefix)
  next
    case False
    then have "cid \<noteq> k" by simp
    with c fin msgs show ?thesis
      by (simp add: AddMessage get_add_message same_session_refl same_content_refl
          same_outcome_refl)
  qed
next
  case (Complete now k fr rt cs em et ec rc)
  show ?thesis
  proof (cases "k = cid")
    case True
    with c fin msgs show ?thesis
      by (simp add: Complete get_complete_communication_nonempty same_session_def
          same_content_def)
  next
    case False
    then have "cid \<noteq> k" by simp
    with c fin msgs show ?thesis
      by (simp add: Complete get_complete_other same_session_refl same_content_refl
          same_outcome_refl)
  qed
qed

lemma run_frames:
  assumes "get_communication self cid = Some c"
    and "session_end c \<noteq> None" and "messages c \<noteq> []"
    and "\<forall>call \<in> set calls. started_id call \<noteq> Some cid"
  shows "\<exists>c'. get_communication (run self calls) cid = Some c' \<and> session_end c' \<noteq> None \<and>
              messages c' \<noteq> [] \<and> same_session c c' \<and> prefix (messages c) (messages c') \<and>
              prefix (function_calls_made c) (function_calls_made c') \<and>
              prefix (tools_used c) (tools_used c') \<and>
              ((\<forall>call \<in> set calls. \<not> adds_message_to cid call) \<longrightarrow> same_content c c') \<and>
              ((\<forall>call \<in> set calls. \<not> completes cid call) \<longrightarrow> same_outcome c c')"
  using assms
proof (induction calls arbitrary: self c)
  case Nil
  then show ?case
    by (simp add: run_Nil same_session_refl same_content_refl same_outcome_refl)
next
  case (Cons call calls)
  from Cons.prems have "started_id call \<noteq> Some cid" by simp
  from step_frames [OF Cons.prems(1-3) this]
  obtain c1 where c1: "get_communication (step self call) cid = Some c1"
    "session_end c1 \<noteq> None" "messages c1 \<noteq> []"
    and s1: "same_session c c1" "prefix (messages c) (messages c1)"
    "prefix (function_calls_made c) (function_calls_made c1)"
    "prefix (tools_used c) (tools_used c1)"
    "\<not> adds_message_to cid call \<longrightarrow> same_content c c1"
    "\<not> completes cid call \<longrightarrow> same_outcome c c1"
    by blast
  from Cons.prems have "\<forall>call \<in> set calls. started_id call \<noteq> Some cid" by simp
  from Cons.IH [OF c1 this]
  obtain c' where c': "get_communication (run (step self call) calls) cid = Some c'"
    "session_end c' \<noteq> None" "messages c' \<noteq> []"
    and s': "same_session c1 c'" "prefix (messages c1) (messages c')"
    "prefix (function_calls_made c1) (function_calls_made c')"
    "prefix (tools_used c1) (tools_used c')"
    "(\<forall>call \<in> set calls. \<not> adds_message_to cid call) \<longrightarrow> same_content c1 c'"
    "(\<forall>call \<in> set calls. \<not> completes cid call) \<longrightarrow> same_outcome c1 c'"
    by blast
  from s1 s' have "same_session c c'" "prefix (messages c) (messages c')"
    "prefix (function_calls_made c) (function_calls_made c')"
    "prefix (tools_used c) (tools_used c')"
    "(\<forall>x \<in> set (call # calls). \<not> adds_message_to cid x) \<longrightarrow> same_content c c'"
    "(\<forall>x \<in> set (call # calls). \<not> completes cid x) \<longrightarrow> same_outcome c c'"
    by (auto intro: same_session_trans same_content_trans same_outcome_trans)
  with c' show ?case
    by (simp add: run_Cons)
qed

lemma not_target_no_write:
  "target_id call \<noteq> cid \<Longrightarrow> \<not> adds_message_to cid call \<and> \<not> completes cid call"
  by (cases call) auto

text \<open>
  Claim C8, as the code has it. A completed record with messages stays in the store under its
  identifier through every sequence of further calls (new sessions getting new identifiers): it
  remains completed and keeps the fields fixed when it was started. Calls on other identifiers
  change no field of it, and its state after the sequence is the one the calls on its own
  identifier alone produce. Of these, \<open>add_message\<close> only extends its messages and lists of calls
  and adds to its token counts, leaving the fields set at completion as they are, and
  \<open>complete_communication\<close> only sets the fields set at completion again, leaving messages, token
  counts and lists of calls as they are.
\<close>

theorem completed_record_retained:
  assumes "get_communication self cid = Some c"
    and "session_end c \<noteq> None" and "messages c \<noteq> []"
    and "\<forall>call \<in> set calls. started_id call \<noteq> Some cid"
  shows "\<exists>c'. get_communication (run self calls) cid = Some c' \<and> session_end c' \<noteq> None \<and>
              messages c' \<noteq> [] \<and> same_session c c' \<and> prefix (messages c) (messages c') \<and>
              prefix (function_calls_made c) (function_calls_made c') \<and>
              prefix (tools_used c) (tools_used c') \<and>
              ((\<forall>call \<in> set calls. \<not> adds_message_to cid call) \<longrightarrow> same_content c c') \<and>
              ((\<forall>call \<in> set calls. \<not> completes cid call) \<longrightarrow> same_outcome c c') \<and>
              ((\<forall>call \<in> set calls. target_id call \<noteq> cid) \<longrightarrow> c' = c) \<and>
              get_communication (run self (filter (\<lambda>call. target_id call = cid) calls)) cid =
                Some c'"
proof -
  from run_frames [OF assms]
  obtain c' where c': "get_communication (run self calls) cid = Some c'"
    "session_end c' \<noteq> None" "messages c' \<noteq> []" "same_session c c'"
    "prefix (messages c) (messages c')"
    "prefix (function_calls_made c) (function_calls_made c')"
    "prefix (tools_used c) (tools_used c')"
    "(\<forall>call \<in> set calls. \<not> adds_message_to cid call) \<longrightarrow> same_content c c'"
    "(\<forall>call \<in> set calls. \<not> completes cid call) \<longrightarrow> same_outcome c c'"
    by blast
  have "(\<forall>call \<in> set calls. target_id call \<noteq> cid) \<longrightarrow> c' = c"
    using c'(4,8,9) not_target_no_write [of _ cid] by (blast intro: same_all_fields)
  moreover have "get_communication (run self (filter (\<lambda>call. target_id call = cid) calls)) cid =
                   Some c'"
    using run_projection [of self cid self calls] c'(1) by simp
  ultimately show ?thesis
    using c' by blast
qed

theorem completed_record_retained_witness:
  "(\<exists>c'. get_communication
          (run (run (init None) (example_calls @ [Complete 5 ''c1'' ''done'' 1200 None None None None 0]))
             [AddMessage ''m3'' 6 ''c1'' ''user'' ''one more'' (Some 7) None None,
              Complete 7 ''c1'' ''again'' 5 None (Some ''late'') None None 2,
              Complete 8 ''c2'' ''Error: boom'' 10 None (Some ''boom'') None None 0,
              Start ''c3'' 9 ''a1'' ''Dr. X'' ''cardiology'' AUTOGEN OPENAI ''gpt-4'' None None
                ''assessment'' None]) ''c1'' = Some c' \<and>
        session_end c' \<noteq> None \<and> agent_id c' = ''a1'' \<and> model c' = ''gpt-4'') \<and>
   get_communication
     (run (run (init None) (example_calls @ [Complete 5 ''c1'' ''done'' 1200 None None None None 0]))
        [AddMessage ''m4'' 6 ''c2'' ''user'' ''hello'' (Some 3) None None,
         Start ''c3'' 7 ''a1'' ''Dr. X'' ''cardiology'' AUTOGEN OPENAI ''gpt-4'' None None
           ''assessment'' None,
         Complete 8 ''c2'' ''bye'' 10 None None None None 0]) ''c1'' =
   get_communication
     (run (init None) (example_calls @ [Complete 5 ''c1'' ''done'' 1200 None None None None 0]))
     ''c1''"
proof -
  let ?u = "run (init None) example_calls"
  let ?t = "run (init None) (example_calls @ [Complete 5 ''c1'' ''done'' 1200 None None None None 0])"
  obtain c0 where c0: "get_communication ?u ''c1'' = Some c0" and m0: "messages c0 \<noteq> []"
    and f0: "agent_id c0 = ''a1''" "model c0 = ''gpt-4''"
    by (simp add: example_calls_def run_def get_start_communication get_add_message
        eval_record_message)
  have t: "?t = complete_communication 5 ?u ''c1'' ''done'' 1200 None None None None 0"
    by (simp add: run_def)
  have "\<exists>c. get_communication ?t ''c1'' = Some c \<and> session_end c \<noteq> None \<and> messages c \<noteq> [] \<and>
            agent_id c = ''a1'' \<and> model c = ''gpt-4''"
    unfolding t by (simp add: get_complete_communication_nonempty [OF c0 m0] m0 f0)
  then obtain c where c: "get_communication ?t ''c1'' = Some c" "session_end c \<noteq> None"
    "messages c \<noteq> []" and f: "agent_id c = ''a1''" "model c = ''gpt-4''"
    by blast
  have "\<forall>call \<in> set [AddMessage ''m3'' 6 ''c1'' ''user'' ''one more'' (Some 7) None None,
              Complete 7 ''c1'' ''again'' 5 None (Some ''late'') None None 2,
              Complete 8 ''c2'' ''Error: boom'' 10 None (Some ''boom'') None None 0,
              Start ''c3'' 9 ''a1'' ''Dr. X'' ''cardiology'' AUTOGEN OPENAI ''gpt-4'' None None
                ''assessment'' None]. started_id call \<noteq> Some ''c1''"
    by simp
  from completed_record_retained [OF c this] f
  have 1: "\<exists>c'. get_communication
          (run ?t
             [AddMessage ''m3'' 6 ''c1'' ''user'' ''one more'' (Some 7) None None,
              Complete 7 ''c1'' ''again'' 5 None (Some ''late'') None None 2,
              Complete 8 ''c2'' ''Error: boom'' 10 None (Some ''boom'') None None 0,
              Start ''c3'' 9 ''a1'' ''Dr. X'' ''cardiology'' AUTOGEN OPENAI ''gpt-4'' None None
                ''assessment'' None]) ''c1'' = Some c' \<and>
        session_end c' \<noteq> None \<and> agent_id c' = ''a1'' \<and> model c' = ''gpt-4''"
    by (auto simp: same_session_def)
  have fresh: "\<forall>call \<in> set [AddMessage ''m4'' 6 ''c2'' ''user'' ''hello'' (Some 3) None None,
         Start ''c3'' 7 ''a1'' ''Dr. X'' ''cardiology'' AUTOGEN OPENAI ''gpt-4'' None None
           ''assessment'' None,
         Complete 8 ''c2'' ''bye'' 10 None None None None 0]. started_id call \<noteq> Some ''c1''"
    by simp
  have other: "\<forall>call \<in> set [AddMessage ''m4'' 6 ''c2'' ''user'' ''hello'' (Some 3) None None,
         Start ''c3'' 7 ''a1'' ''Dr. X'' ''cardiology'' AUTOGEN OPENAI ''gpt-4'' None None
           ''assessment'' None,
         Complete 8 ''c2'' ''bye'' 10 None None None None 0]. target_id call \<noteq> ''c1''"
    by simp
  from completed_record_retained [OF c fresh] other c(1)
  have 2: "get_communication
     (run ?t
        [AddMessage ''m4'' 6 ''c2'' ''user'' ''hello'' (Some 3) None None,
         Start ''c3'' 7 ''a1'' ''Dr. X'' ''cardiology'' AUTOGEN OPENAI ''gpt-4'' None None
           ''assessment'' None,
         Complete 8 ''c2'' ''bye'' 10 None None None None 0]) ''c1'' =
     get_communication ?t ''c1''"
    by auto
  from 1 2 show ?thesis by blast
qed

text \<open>
  The record is not frozen: a further \<open>add_message\<close> on a completed record adds to its token
  count, and a second completion replaces its final response.
\<close>

theorem completed_record_mutable_counterexample:
  "map_option session_end
     (get_communication
        (run (init None) (example_calls @ [Complete 5 ''c1'' ''done'' 1200 None None None None 0]))
        ''c1'') = Some (Some 5) \<and>
   map_option total_input_tokens
     (get_communication
        (run (init None) (example_calls @ [Complete 5 ''c1'' ''done'' 1200 None None None None 0]))
        ''c1'') = Some 50 \<and>
   map_option total_input_tokens
     (get_communication
        (add_message ''m3'' 6
           (run (init None) (example_calls @ [Complete 5 ''c1'' ''done'' 1200 None None None None 0]))
           ''c1'' ''user'' ''one more'' (Some 7) None None)
        ''c1'') = Some 57 \<and>
   map_option final_response
     (get_communication
        (run (init None) (example_calls @ [Complete 5 ''c1'' ''done'' 1200 None None None None 0]))
        ''c1'') = Some (Some ''done'') \<and>
   map_option final_response
     (get_communication
        (complete_communication 7
           (run (init None) (example_calls @ [Complete 5 ''c1'' ''done'' 1200 None None None None 0]))
           ''c1'' ''again'' 5 None (Some ''late'') None None 2)
        ''c1'') = Some (Some ''again'')"
proof -
  let ?u = "run (init None) example_calls"
  let ?t = "run (init None) (example_calls @ [Complete 5 ''c1'' ''done'' 1200 None None None None 0])"
  obtain c0 where c0: "get_communication ?u ''c1'' = Some c0" and m0: "messages c0 \<noteq> []"
    and i0: "total_input_tokens c0 = 50"
    by (simp add: example_calls_def run_def get_start_communication get_add_message
        eval_record_message)
  have t: "?t = complete_communication 5 ?u ''c1'' ''done'' 1200 None None None None 0"
    by (simp add: run_def)
  have "\<exists>c. get_communication ?t ''c1'' = Some c \<and> session_end c = Some 5 \<and> messages c \<noteq> [] \<and>
            total_input_tokens c = 50 \<and> final_response c = Some ''done''"
    unfolding t by (simp add: get_complete_communication_nonempty [OF c0 m0] m0 i0)
  then obtain c where c: "get_communication ?t ''c1'' = Some c" and m: "messages c \<noteq> []"
    and f: "session_end c = Some 5" "total_input_tokens c = 50" "final_response c = Some ''done''"
    by blast
  show ?thesis
    by (simp add: c f get_add_message record_message_input token_count_def
        get_complete_communication_nonempty [OF c m])
qed

subsection \<open>The adapters on a failing call\<close>

text \<open>The CrewAI adapter stores the classifier's message, type and code in the fields of the
  same names, and raises the exception it caught.\<close>

lemma tracked_call_records_error:
  assumes "parse_openai_error e = (msg, ty, code)"
  shows "snd (tracked_call env self model_name aid aname specialty prompt (Inl e)) = Inl e \<and>
    (\<exists>c. get_communication
            (fst (tracked_call env self model_name aid aname specialty prompt (Inl e)))
            (env_comm_id env) = Some c \<and>
         error_message c = Some msg \<and> error_type c = Some ty \<and> error_code c = code)"
proof -
  let ?s1 = "start_communication (env_comm_id env) (env_start env) self aid aname specialty CREWAI
               OPENAI (case model_name of None \<Rightarrow> ''gpt-4'' | Some m \<Rightarrow> m)
               None None ''assessment'' None"
  let ?s2 = "add_message (fst (env_msg env 0)) (snd (env_msg env 0)) ?s1 (env_comm_id env) ''user''
               prompt (Some (estimate_tokens prompt)) None None"
  obtain c where c: "get_communication ?s2 (env_comm_id env) = Some c" and m: "messages c \<noteq> []"
    by (simp add: get_add_message get_start_communication record_message_messages)
  show ?thesis
    using assms
    by (simp add: tracked_call_def Let_def get_complete_communication_nonempty [OF c m])
qed

text \<open>
  Claim C9. On a failing call both adapters raise the exception they caught, and the CrewAI
  adapter stores the classifier's message in \<open>error_message\<close> and its type in \<open>error_type\<close>. The
  AutoGen adapter unpacks the classifier's result as (type, message, code): for an exception
  reading \<open>Rate limit reached, please retry. (429)\<close> it stores \<open>rate_limit\<close> in \<open>error_message\<close>
  and the text of the exception in \<open>error_type\<close>.
\<close>

theorem autogen_swaps_error_fields:
  "snd (tracked_generate_reply
          \<lparr>env_comm_id = ''c1'', env_start = 0, env_msg = (\<lambda>k. (''m'', 7)), env_end = 9,
            env_response_time_ms = 1200\<rparr>
          (init None) None None ''a1'' ''Dr. X'' ''cardiology''
          [\<lparr>cm_role = ''user'', cm_content = ''assess patient''\<rparr>]
          (Inl \<lparr>exc_str = ''Rate limit reached, please retry. (429)'', exc_status_code = None,
                exc_retry_count = None\<rparr>)) =
     Inl \<lparr>exc_str = ''Rate limit reached, please retry. (429)'', exc_status_code = None,
          exc_retry_count = None\<rparr> \<and>
   map_option error_message
     (get_communication
        (fst (tracked_generate_reply
          \<lparr>env_comm_id = ''c1'', env_start = 0, env_msg = (\<lambda>k. (''m'', 7)), env_end = 9,
            env_response_time_ms = 1200\<rparr>
          (init None) None None ''a1'' ''Dr. X'' ''cardiology''
          [\<lparr>cm_role = ''user'', cm_content = ''assess patient''\<rparr>]
          (Inl \<lparr>exc_str = ''Rate limit reached, please retry. (429)'', exc_status_code = None,
                exc_retry_count = None\<rparr>))) ''c1'') = Some (Some ''rate_limit'') \<and>
   map_option error_type
     (get_communication
        (fst (tracked_generate_reply
          \<lparr>env_comm_id = ''c1'', env_start = 0, env_msg = (\<lambda>k. (''m'', 7)), env_end = 9,
            env_response_time_ms = 1200\<rparr>
          (init None) None None ''a1'' ''Dr. X'' ''cardiology''
          [\<lparr>cm_role = ''user'', cm_content = ''assess patient''\<rparr>]
          (Inl \<lparr>exc_str = ''Rate limit reached, please retry. (429)'', exc_status_code = None,
                exc_retry_count = None\<rparr>))) ''c1'') =
     Some (Some ''Rate limit reached, please retry. (429)'') \<and>
   map_option error_message
     (get_communication
        (fst (tracked_call
          \<lparr>env_comm_id = ''c1'', env_start = 0, env_msg = (\<lambda>k. (''m'', 7)), env_end = 9,
            env_response_time_ms = 1200\<rparr>
          (init None) None ''a1'' ''Dr. X'' ''cardiology'' ''assess patient''
          (Inl \<lparr>exc_str = ''Rate limit reached, please retry. (429)'', exc_status_code = None,
                exc_retry_count = None\<rparr>))) ''c1'') =
     Some (Some ''Rate limit reached, please retry. (429)'')"
proof -
  let ?e = "\<lparr>exc_str = ''Rate limit reached, please retry. (429)'', exc_status_code = None,
                exc_retry_count = None\<rparr>"
  let ?env = "\<lparr>env_comm_id = ''c1'', env_start = 0, env_msg = (\<lambda>k. (''m'', 7)), env_end = 9,
            env_response_time_ms = 1200\<rparr>"
  have p: "parse_openai_error ?e =
             (''Rate limit reached, please retry. (429)'', ''rate_limit'', Some 429)"
    by code_simp
  let ?s1 = "start_communication ''c1'' 0 (init None) ''a1'' ''Dr. X'' ''cardiology'' AUTOGEN OPENAI
               ''unknown'' None None ''assessment'' None"
  let ?s2 = "add_message ''m'' 7 ?s1 ''c1'' ''user'' ''assess patient'' None None None"
  obtain c where c: "get_communication ?s2 ''c1'' = Some c" and m: "messages c \<noteq> []"
    by (simp add: get_add_message get_start_communication record_message_messages)
  have auto_gen: "tracked_generate_reply ?env (init None) None None ''a1'' ''Dr. X'' ''cardiology''
          [\<lparr>cm_role = ''user'', cm_content = ''assess patient''\<rparr>] (Inl ?e) =
        (complete_communication 9 ?s2 ''c1'' ''Error: rate_limit'' 1200 None
           (Some ''rate_limit'') (Some ''Rate limit reached, please retry. (429)'') (Some 429) 0,
         Inl ?e)"
    by (simp add: tracked_generate_reply_def Let_def p)
  from tracked_call_records_error [OF p, of ?env "init None" None "''a1''" "''Dr. X''"
      "''cardiology''" "''assess patient''"]
  have crew: "map_option error_message
     (get_communication
        (fst (tracked_call ?env (init None) None ''a1'' ''Dr. X'' ''cardiology'' ''assess patient''
          (Inl ?e))) ''c1'') = Some (Some ''Rate limit reached, please retry. (429)'')"
    by auto
  show ?thesis
    unfolding auto_gen using crew
    by (simp add: get_complete_communication_nonempty [OF c m])
qed

end
